theory Spec2Isabelle
  imports Complex_Main "HOL-Library.AList"
begin

section \<open>Tabular data as the two dashboards see it\<close>

text \<open>
  Both \<^verbatim>\<open>load_data\<close> functions work on a pandas \<^verbatim>\<open>DataFrame\<close>. A frame is modelled by its
  row labels (the index) and its named columns, in column order. A column maps a row label
  to the cell stored there, so that dropping rows only shortens the index and a row keeps
  its identity through the loader.

  A cell is what the parsers put into a frame:
  \<^item> \<open>NaN\<close>: a missing value (\<^verbatim>\<open>NaN\<close>, \<^verbatim>\<open>None\<close>, \<^verbatim>\<open>NaT\<close>), what \<^verbatim>\<open>isna\<close> accepts;
  \<^item> \<open>Num r\<close>: a finite number (int64 or float64; a boolean counts as 0 or 1, which is how
    every operation of the loaders treats it);
  \<^item> \<open>Inf b\<close>: the float \<^verbatim>\<open>inf\<close> (\<open>b\<close> true) or \<^verbatim>\<open>-inf\<close>;
  \<^item> \<open>Str s\<close>: a Python \<^verbatim>\<open>str\<close>;
  \<^item> \<open>Ts t\<close>: a timestamp of a \<^verbatim>\<open>datetime64[ns]\<close> column, \<open>t\<close> nanoseconds after
    1970-01-01T00:00:00;
  \<^item> \<open>List xs\<close>: a Python list (only the movie loader meets these).
\<close>

datatype cell =
    NaN
  | Num real
  | Inf bool
  | Str string
  | Ts int
  | List "cell list"

text \<open>
  Of a column's dtype the loaders observe only whether it is datetime-like (the \<^verbatim>\<open>.dt\<close>
  accessor) and whether it is categorical, with which allowed set of labels (the \<^verbatim>\<open>.cat\<close>
  accessor). Every other dtype (int64, float64, bool, object) is \<open>Plain\<close>. The order of
  the categories is not modelled: nothing in the loaders reads it.
\<close>

datatype dtype = Plain | Datetime64 | Category "cell set"

record column =
  dtype :: dtype
  vals :: "nat \<Rightarrow> cell"

record frame =
  index :: "nat list"
  columns :: "(string \<times> column) list"

datatype py_error =
    ParserError
  | JSONDecodeError
  | ValueError
  | KeyError
  | AttributeError
  | TypeError
  | IndexError
  | SyntaxError

text \<open>Sequencing of steps that may raise: the first exception ends the computation.\<close>

definition and_then :: "py_error + 'a \<Rightarrow> ('a \<Rightarrow> py_error + 'b) \<Rightarrow> py_error + 'b" where
  "and_then r f = (case r of Inl e \<Rightarrow> Inl e | Inr x \<Rightarrow> f x)"

text \<open>\<^verbatim>\<open>col in df.columns\<close>, \<^verbatim>\<open>df[col]\<close> and \<^verbatim>\<open>df[col] = series\<close> (an existing column is
  replaced in place, a new one is appended).\<close>

definition has_column :: "frame \<Rightarrow> string \<Rightarrow> bool" where
  "has_column df col = (map_of (columns df) col \<noteq> None)"

definition getitem :: "frame \<Rightarrow> string \<Rightarrow> py_error + column" where
  "getitem df col = (case map_of (columns df) col of None \<Rightarrow> Inl KeyError | Some s \<Rightarrow> Inr s)"

definition setitem :: "frame \<Rightarrow> string \<Rightarrow> column \<Rightarrow> frame" where
  "setitem df col s = df\<lparr>columns := AList.update col s (columns df)\<rparr>"

text \<open>\<^verbatim>\<open>df[col] = scalar\<close>: the scalar is broadcast to every row.\<close>

definition broadcast :: "cell \<Rightarrow> column" where
  "broadcast c = \<lparr>dtype = Plain, vals = (\<lambda>i. c)\<rparr>"

text \<open>Selecting the rows whose label satisfies a boolean mask.\<close>

definition select_rows :: "(nat \<Rightarrow> bool) \<Rightarrow> frame \<Rightarrow> frame" where
  "select_rows keep df = df\<lparr>index := filter keep (index df)\<rparr>"

text \<open>The first exception raised while converting the cells of the rows, in row order.\<close>

fun first_error :: "(py_error + 'a) list \<Rightarrow> py_error option" where
  "first_error [] = None"
| "first_error (Inl e # rs) = Some e"
| "first_error (Inr x # rs) = first_error rs"

section \<open>The crime dashboard: \<^verbatim>\<open>Exercise 2/streamlit/app.py\<close>\<close>

subsection \<open>The library calls of the loader\<close>

text \<open>
  \<^verbatim>\<open>pd.read_csv(file, parse_dates=["OCCURRED_ON_DATE"])\<close>. The file is given by what the
  library's tokenizer and type inference make of it: nothing (the call raises), or a table.
  In the table the date column is already converted where the library converts it; a
  table without the column named in \<^verbatim>\<open>parse_dates\<close> makes the call raise \<^verbatim>\<open>ValueError\<close>.
\<close>

datatype csv_file = Malformed | Table frame

definition read_csv :: "csv_file \<Rightarrow> py_error + frame" where
  "read_csv file =
     (case file of
        Malformed \<Rightarrow> Inl ParserError
      | Table df \<Rightarrow>
          if has_column df ''OCCURRED_ON_DATE'' then Inr df else Inl ValueError)"

text \<open>\<^verbatim>\<open>series.astype("category")\<close>: the allowed labels are the values present, \<^verbatim>\<open>NaN\<close>
  is never a label, the values stay.\<close>

definition astype_category :: "nat list \<Rightarrow> column \<Rightarrow> column" where
  "astype_category idx s =
     \<lparr>dtype = Category (set (filter (\<lambda>c. c \<noteq> NaN) (map (vals s) idx))), vals = vals s\<rparr>"

text \<open>\<^verbatim>\<open>series.cat.add_categories(c)\<close>: the accessor needs a categorical column, and the
  call raises \<^verbatim>\<open>ValueError\<close> when \<open>c\<close> is already one of the categories.\<close>

definition add_categories :: "column \<Rightarrow> cell \<Rightarrow> py_error + column" where
  "add_categories s c =
     (case dtype s of
        Category cs \<Rightarrow>
          if c \<in> cs then Inl ValueError
          else Inr \<lparr>dtype = Category (insert c cs), vals = vals s\<rparr>
      | _ \<Rightarrow> Inl AttributeError)"

text \<open>\<^verbatim>\<open>series.fillna(c)\<close>: every missing value becomes \<open>c\<close>; on a categorical column
  \<open>c\<close> must be one of the categories.\<close>

definition fillna :: "column \<Rightarrow> cell \<Rightarrow> py_error + column" where
  "fillna s c =
     (let filled = \<lparr>dtype = dtype s, vals = (\<lambda>i. if vals s i = NaN then c else vals s i)\<rparr>
      in case dtype s of
           Category cs \<Rightarrow> if c \<in> cs then Inr filled else Inl TypeError
         | _ \<Rightarrow> Inr filled)"

text \<open>\<^verbatim>\<open>(series == c).astype(int)\<close>: 1 where the value equals the scalar, else 0 (a missing
  value equals nothing).\<close>

definition eq_astype_int :: "column \<Rightarrow> cell \<Rightarrow> column" where
  "eq_astype_int s c =
     \<lparr>dtype = Plain, vals = (\<lambda>i. if vals s i = c \<and> c \<noteq> NaN then Num 1 else Num 0)\<rparr>"

text \<open>
  \<^verbatim>\<open>pd.to_numeric(series, errors="coerce")\<close>: numbers stay, a string becomes the number it
  denotes and \<^verbatim>\<open>NaN\<close> when it denotes none. The library's conversion of a string is the
  parameter \<open>to_float\<close>; it returns \<open>NaN\<close> for text that is no number.
\<close>

definition coerce_numeric :: "(string \<Rightarrow> cell) \<Rightarrow> cell \<Rightarrow> cell" where
  "coerce_numeric to_float c =
     (case c of
        NaN \<Rightarrow> NaN
      | Num r \<Rightarrow> Num r
      | Inf b \<Rightarrow> Inf b
      | Str s \<Rightarrow> to_float s
      | Ts t \<Rightarrow> Num (of_int t)
      | List xs \<Rightarrow> NaN)"

definition to_numeric :: "(string \<Rightarrow> cell) \<Rightarrow> column \<Rightarrow> column" where
  "to_numeric to_float s = \<lparr>dtype = Plain, vals = (\<lambda>i. coerce_numeric to_float (vals s i))\<rparr>"

text \<open>
  \<^verbatim>\<open>series.astype(int)\<close>: a missing or infinite value raises (\<^verbatim>\<open>IntCastingNaNError\<close>, a
  \<^verbatim>\<open>ValueError\<close>), and so does anything that is no number. A finite number is cut to an
  integer towards zero. When that integer is no int64, the result is what the C conversion
  of the column's dtype makes of it: a uint64 column wraps around modulo \<open>2 ^ 64\<close>, for a
  float64 column the value depends on the platform. This part of the cast is the
  parameter \<open>out_of_range\<close>.
\<close>

definition float_to_int64 :: "(real \<Rightarrow> int) \<Rightarrow> real \<Rightarrow> int" where
  "float_to_int64 out_of_range r =
     (let z = (if 0 \<le> r then \<lfloor>r\<rfloor> else \<lceil>r\<rceil>)
      in if - (2 ^ 63) \<le> z \<and> z < 2 ^ 63 then z else out_of_range r)"

definition int_of_cell :: "(real \<Rightarrow> int) \<Rightarrow> cell \<Rightarrow> py_error + cell" where
  "int_of_cell out_of_range c =
     (case c of
        Num r \<Rightarrow> Inr (Num (of_int (float_to_int64 out_of_range r)))
      | _ \<Rightarrow> Inl ValueError)"

definition astype_int :: "(real \<Rightarrow> int) \<Rightarrow> nat list \<Rightarrow> column \<Rightarrow> py_error + column" where
  "astype_int out_of_range idx s =
     (case first_error (map (\<lambda>i. int_of_cell out_of_range (vals s i)) idx) of
        Some e \<Rightarrow> Inl e
      | None \<Rightarrow>
          Inr \<lparr>dtype = Plain,
               vals = (\<lambda>i. case vals s i of
                              Num r \<Rightarrow> Num (of_int (float_to_int64 out_of_range r))
                            | c \<Rightarrow> c)\<rparr>)"

text \<open>
  \<^verbatim>\<open>series.dt.hour\<close>: the accessor raises \<^verbatim>\<open>AttributeError\<close> unless the column is
  datetime-like; the hour of a timestamp is its hour of the day, and \<^verbatim>\<open>NaN\<close> for \<^verbatim>\<open>NaT\<close>.
\<close>

definition hour_of :: "int \<Rightarrow> int" where
  "hour_of t = (t div 3600000000000) mod 24"

definition dt_hour :: "column \<Rightarrow> py_error + column" where
  "dt_hour s =
     (if dtype s = Datetime64
      then Inr \<lparr>dtype = Plain,
                vals = (\<lambda>i. case vals s i of Ts t \<Rightarrow> Num (of_int (hour_of t)) | _ \<Rightarrow> NaN)\<rparr>
      else Inl AttributeError)"

text \<open>\<^verbatim>\<open>df.dropna(subset=[a, b])\<close>: both columns must exist (\<^verbatim>\<open>KeyError\<close>); the rows with
  a missing value in either are dropped.\<close>

definition dropna :: "frame \<Rightarrow> string \<Rightarrow> string \<Rightarrow> py_error + frame" where
  "dropna df a b =
     and_then (getitem df a) (\<lambda>sa.
     and_then (getitem df b) (\<lambda>sb.
       Inr (select_rows (\<lambda>i. vals sa i \<noteq> NaN \<and> vals sb i \<noteq> NaN) df)))"

subsection \<open>The loader, step by step\<close>

text \<open>The loop over \<^verbatim>\<open>categorical_cols\<close>: each listed column that exists becomes
  categorical.\<close>

definition categorical_cols :: "string list" where
  "categorical_cols =
     [''DISTRICT'', ''OFFENSE_CODE_GROUP'', ''UCR_PART'', ''DAY_OF_WEEK'', ''SHOOTING'']"

fun convert_categories :: "string list \<Rightarrow> frame \<Rightarrow> frame" where
  "convert_categories [] df = df"
| "convert_categories (col # cols) df =
     convert_categories cols
       (case map_of (columns df) col of
          None \<Rightarrow> df
        | Some s \<Rightarrow> setitem df col (astype_category (index df) s))"

text \<open>\<^verbatim>\<open># Normalize SHOOTING\<close>\<close>

definition normalize_shooting :: "frame \<Rightarrow> py_error + frame" where
  "normalize_shooting df =
     (if has_column df ''SHOOTING''
      then and_then (getitem df ''SHOOTING'') (\<lambda>s.
           and_then (add_categories s (Str ''N'')) (\<lambda>s1.
           and_then (fillna s1 (Str ''N'')) (\<lambda>s2.
             Inr (setitem df ''SHOOTING'' s2))))
      else Inr (setitem df ''SHOOTING'' (broadcast (Str ''N''))))"

text \<open>\<^verbatim>\<open>df["Is_Shooting"] = (df["SHOOTING"] == "Y").astype(int)\<close>\<close>

definition add_is_shooting :: "frame \<Rightarrow> py_error + frame" where
  "add_is_shooting df =
     and_then (getitem df ''SHOOTING'') (\<lambda>s.
       Inr (setitem df ''Is_Shooting'' (eq_astype_int s (Str ''Y''))))"

text \<open>\<^verbatim>\<open># Fix HOUR column\<close>\<close>

definition fix_hour ::
  "(string \<Rightarrow> cell) \<Rightarrow> (real \<Rightarrow> int) \<Rightarrow> frame \<Rightarrow> py_error + frame" where
  "fix_hour to_float out_of_range df =
     (if has_column df ''HOUR''
      then and_then (getitem df ''HOUR'') (\<lambda>s.
           and_then (fillna (to_numeric to_float s) (Num 0)) (\<lambda>s1.
           and_then (astype_int out_of_range (index df) s1) (\<lambda>s2.
             Inr (setitem df ''HOUR'' s2))))
      else and_then (getitem df ''OCCURRED_ON_DATE'') (\<lambda>s.
           and_then (dt_hour s) (\<lambda>s1.
           and_then (astype_int out_of_range (index df) s1) (\<lambda>s2.
             Inr (setitem df ''HOUR'' s2)))))"

text \<open>\<^verbatim>\<open># Clean coordinates\<close>\<close>

definition clean_coordinates :: "frame \<Rightarrow> py_error + frame" where
  "clean_coordinates df =
     and_then (dropna df ''Lat'' ''Long'') (\<lambda>df1.
     and_then (getitem df1 ''Lat'') (\<lambda>lat.
       Inr (select_rows (\<lambda>i. vals lat i \<noteq> Num (- 1) \<and> vals lat i \<noteq> Num 0) df1)))"

text \<open>\<^verbatim>\<open># Ensure OFFENSE_DESCRIPTION exists\<close>\<close>

definition ensure_description :: "frame \<Rightarrow> frame" where
  "ensure_description df =
     (if \<not> has_column df ''OFFENSE_DESCRIPTION''
      then setitem df ''OFFENSE_DESCRIPTION'' (broadcast (Str ''Unknown''))
      else df)"

text \<open>The body of the \<^verbatim>\<open>try\<close> block, and \<^verbatim>\<open>load_data\<close> itself: \<^verbatim>\<open>except Exception\<close> turns
  every exception of the body into the result \<^verbatim>\<open>None\<close>.\<close>

definition load_data_crime_body ::
  "(string \<Rightarrow> cell) \<Rightarrow> (real \<Rightarrow> int) \<Rightarrow> csv_file \<Rightarrow> py_error + frame" where
  "load_data_crime_body to_float out_of_range file =
     and_then (read_csv file) (\<lambda>df.
     and_then (normalize_shooting (convert_categories categorical_cols df)) (\<lambda>df1.
     and_then (add_is_shooting df1) (\<lambda>df2.
     and_then (fix_hour to_float out_of_range df2) (\<lambda>df3.
     and_then (clean_coordinates df3) (\<lambda>df4.
       Inr (ensure_description df4))))))"

definition load_data_crime ::
  "(string \<Rightarrow> cell) \<Rightarrow> (real \<Rightarrow> int) \<Rightarrow> csv_file \<Rightarrow> frame option" where
  "load_data_crime to_float out_of_range file =
     (case load_data_crime_body to_float out_of_range file of Inl e \<Rightarrow> None | Inr df \<Rightarrow> Some df)"

text \<open>
  The instant a civil date and time of day denotes, as the date parser stores it: days
  since 1970-01-01 by the usual count of the proleptic Gregorian calendar, then
  nanoseconds.
\<close>

definition days_from_civil :: "int \<Rightarrow> int \<Rightarrow> int \<Rightarrow> int" where
  "days_from_civil y m d =
     (let y1 = (if m \<le> 2 then y - 1 else y);
          era = y1 div 400;
          yoe = y1 - era * 400;
          doy = (153 * (if m > 2 then m - 3 else m + 9) + 2) div 5 + d - 1;
          doe = yoe * 365 + yoe div 4 - yoe div 100 + doy
      in era * 146097 + doe - 719468)"

definition timestamp :: "int \<Rightarrow> int \<Rightarrow> int \<Rightarrow> int \<Rightarrow> int \<Rightarrow> int \<Rightarrow> int" where
  "timestamp y m d h mi s =
     (((days_from_civil y m d * 24 + h) * 60 + mi) * 60 + s) * 1000000000"

text \<open>Reading one cell of a frame, \<^verbatim>\<open>df.at[i, col]\<close>: \<open>None\<close> when the frame has no such
  column or no row labelled \<open>i\<close>.\<close>

definition cell_at :: "frame \<Rightarrow> string \<Rightarrow> nat \<Rightarrow> cell option" where
  "cell_at df col i =
     (case map_of (columns df) col of
        None \<Rightarrow> None
      | Some s \<Rightarrow> if i \<in> set (index df) then Some (vals s i) else None)"

text \<open>
  The top level of the script up to the first chart: an uploaded file wins over the local
  \<^verbatim>\<open>crime.csv\<close> (\<open>local_file\<close> is \<open>None\<close> when that path does not exist); without a frame the
  script shows the prompt and stops, otherwise it goes on to the filters and charts.
\<close>

datatype outcome = Halted string | Rendering frame

definition prompt :: string where
  "prompt = ''Please upload a CSV file to begin analysis.''"

definition main ::
  "(string \<Rightarrow> cell) \<Rightarrow> (real \<Rightarrow> int) \<Rightarrow> csv_file option \<Rightarrow> csv_file option \<Rightarrow> outcome" where
  "main to_float out_of_range uploaded_file local_file =
     (let df = (case uploaded_file of
                  Some file \<Rightarrow> load_data_crime to_float out_of_range file
                | None \<Rightarrow>
                    (case local_file of
                       Some file \<Rightarrow> load_data_crime to_float out_of_range file
                     | None \<Rightarrow> None))
      in case df of None \<Rightarrow> Halted prompt | Some d \<Rightarrow> Rendering d)"

section \<open>The movie explorer: \<^verbatim>\<open>Exercise 1/Streamlit App/app.py\<close>\<close>

subsection \<open>Python's \<^verbatim>\<open>eval\<close> on the text of a list column\<close>

text \<open>
  The loader hands each text of a list column to \<^verbatim>\<open>eval\<close>, which accepts any Python
  expression. Three parts of the language are modelled, and the rest is the parameter
  \<open>eval_rest\<close> (what \<^verbatim>\<open>eval\<close> does on any other text):
  \<^item> a list display of plain string literals, such as \<^verbatim>\<open>['Tom Hanks', 'Meg Ryan']\<close> or
    \<^verbatim>\<open>[]\<close>: blanks between the tokens, literals in single or double quotes without
    backslash or control character, an optional comma after the last literal;
  \<^item> one plain string literal, such as \<^verbatim>\<open>'Drama'\<close>, whose value is a string;
  \<^item> a text that opens a bracket first and holds no closing bracket at all: the bracket is
    never closed, so \<^verbatim>\<open>eval\<close> raises (a \<^verbatim>\<open>SyntaxError\<close>).
\<close>

datatype token = LBracket | RBracket | Comma | StrLit string

text \<open>The lexer: its state is \<open>None\<close> between tokens and \<open>Some (q, acc)\<close> inside a literal
  opened by the quote \<open>q\<close>, with the characters read so far in \<open>acc\<close>, last first.\<close>

fun lex :: "(char \<times> string) option \<Rightarrow> string \<Rightarrow> token list option" where
  "lex None [] = Some []"
| "lex (Some st) [] = None"
| "lex None (c # cs) =
     (if c = CHR '' '' then lex None cs
      else if c = CHR ''['' then map_option ((#) LBracket) (lex None cs)
      else if c = CHR '']'' then map_option ((#) RBracket) (lex None cs)
      else if c = CHR '','' then map_option ((#) Comma) (lex None cs)
      else if c = CHR 0x27 \<or> c = CHR 0x22 then lex (Some (c, [])) cs
      else None)"
| "lex (Some (q, acc)) (c # cs) =
     (if c = q then map_option ((#) (StrLit (rev acc))) (lex None cs)
      else if c = CHR 0x5C \<or> (of_char c :: nat) < 32 then None
      else lex (Some (q, c # acc)) cs)"

fun elements :: "token list \<Rightarrow> string list option" where
  "elements [StrLit s, RBracket] = Some [s]"
| "elements [StrLit s, Comma, RBracket] = Some [s]"
| "elements (StrLit s # Comma # ts) = map_option ((#) s) (elements ts)"
| "elements ts = None"

fun literal_of :: "token list \<Rightarrow> cell option" where
  "literal_of [StrLit x] = Some (Str x)"
| "literal_of [LBracket, RBracket] = Some (List [])"
| "literal_of (LBracket # ts) = map_option (\<lambda>xs. List (map Str xs)) (elements ts)"
| "literal_of ts = None"

definition parse_literal :: "string \<Rightarrow> cell option" where
  "parse_literal s = (case lex None s of None \<Rightarrow> None | Some ts \<Rightarrow> literal_of ts)"

definition unclosed_bracket :: "string \<Rightarrow> bool" where
  "unclosed_bracket s =
     (case dropWhile (\<lambda>c. c = CHR '' '' \<or> c = CHR 0x09) s of
        [] \<Rightarrow> False
      | c # cs \<Rightarrow> c = CHR ''['' \<and> CHR '']'' \<notin> set s)"

definition eval_str :: "(string \<Rightarrow> py_error + cell) \<Rightarrow> string \<Rightarrow> py_error + cell" where
  "eval_str eval_rest s =
     (case parse_literal s of
        Some v \<Rightarrow> Inr v
      | None \<Rightarrow> if unclosed_bracket s then Inl SyntaxError else eval_rest s)"

text \<open>\<^verbatim>\<open>eval(x)\<close> on a cell: anything but a string raises \<^verbatim>\<open>TypeError\<close>.\<close>

definition py_eval :: "(string \<Rightarrow> py_error + cell) \<Rightarrow> cell \<Rightarrow> py_error + cell" where
  "py_eval eval_rest c = (case c of Str s \<Rightarrow> eval_str eval_rest s | _ \<Rightarrow> Inl TypeError)"

subsection \<open>The loader\<close>

text \<open>
  An uploaded file has a name and a content. The content is given by what each of the two
  parsers makes of it: \<open>as_csv\<close> is the outcome of \<^verbatim>\<open>pd.read_csv(file)\<close>, \<open>as_json\<close> the outcome
  of \<^verbatim>\<open>pd.DataFrame(json.load(file))\<close>.
\<close>

record uploaded =
  name :: string
  as_csv :: "py_error + frame"
  as_json :: "py_error + frame"

definition endswith :: "string \<Rightarrow> string \<Rightarrow> bool" where
  "endswith s suffix =
     (length suffix \<le> length s \<and> drop (length s - length suffix) s = suffix)"

text \<open>\<^verbatim>\<open>isinstance(x, str)\<close>, \<^verbatim>\<open>series.iloc[0]\<close> (\<^verbatim>\<open>IndexError\<close> on a column without rows)
  and \<^verbatim>\<open>series.apply(eval)\<close>.\<close>

definition is_str :: "cell \<Rightarrow> bool" where
  "is_str c = (case c of Str s \<Rightarrow> True | _ \<Rightarrow> False)"

definition iloc0 :: "nat list \<Rightarrow> column \<Rightarrow> py_error + cell" where
  "iloc0 idx s = (case idx of [] \<Rightarrow> Inl IndexError | i # rest \<Rightarrow> Inr (vals s i))"

definition apply_eval ::
  "(string \<Rightarrow> py_error + cell) \<Rightarrow> nat list \<Rightarrow> column \<Rightarrow> py_error + column" where
  "apply_eval eval_rest idx s =
     (case first_error (map (\<lambda>i. py_eval eval_rest (vals s i)) idx) of
        Some e \<Rightarrow> Inl e
      | None \<Rightarrow>
          Inr \<lparr>dtype = Plain,
               vals = (\<lambda>i. case py_eval eval_rest (vals s i) of Inr v \<Rightarrow> v | Inl e \<Rightarrow> vals s i)\<rparr>)"

text \<open>One of the three \<^verbatim>\<open>if\<close> statements under \<^verbatim>\<open># Clean and prepare data\<close>: \<^verbatim>\<open>and\<close> looks
  at the first value only when the column exists.\<close>

definition decode_list_column ::
  "(string \<Rightarrow> py_error + cell) \<Rightarrow> string \<Rightarrow> frame \<Rightarrow> py_error + frame" where
  "decode_list_column eval_rest col df =
     (if has_column df col
      then and_then (getitem df col) (\<lambda>s.
           and_then (iloc0 (index df) s) (\<lambda>first.
             if is_str first
             then and_then (apply_eval eval_rest (index df) s) (\<lambda>s1. Inr (setitem df col s1))
             else Inr df))
      else Inr df)"

text \<open>The choice of the parser by the file name, and the loader.\<close>

definition parse_file :: "uploaded \<Rightarrow> py_error + frame" where
  "parse_file file = (if endswith (name file) ''.csv'' then as_csv file else as_json file)"

definition load_data_movies ::
  "(string \<Rightarrow> py_error + cell) \<Rightarrow> uploaded \<Rightarrow> py_error + frame" where
  "load_data_movies eval_rest file =
     and_then (parse_file file) (\<lambda>df.
     and_then (decode_list_column eval_rest ''castList'' df) (\<lambda>df1.
     and_then (decode_list_column eval_rest ''directorList'' df1) (\<lambda>df2.
       decode_list_column eval_rest ''genreList'' df2)))"

subsection \<open>The text of a list of strings\<close>

text \<open>
  The specification's example of the text in a list column is \<^verbatim>\<open>['Tom Hanks', 'Meg Ryan']\<close>:
  the strings in quotes, a comma and a blank between them, brackets around them. This is
  how Python writes a list of strings. \<open>list_text\<close> is this text for strings that are
  \<open>plain\<close>: without backslash and control characters, and not holding both kinds of quote.
  A plain string goes into single quotes unless it holds a single quote. \<open>item_tokens\<close>
  are the tokens of such a text between its brackets.
\<close>

definition plain :: "string \<Rightarrow> bool" where
  "plain s =
     (list_all (\<lambda>c. c \<noteq> CHR 0x5C \<and> 32 \<le> (of_char c :: nat)) s \<and>
      \<not> (CHR 0x27 \<in> set s \<and> CHR 0x22 \<in> set s))"

definition quoted :: "string \<Rightarrow> string" where
  "quoted s =
     (if CHR 0x27 \<in> set s \<and> CHR 0x22 \<notin> set s
      then CHR 0x22 # s @ [CHR 0x22]
      else CHR 0x27 # s @ [CHR 0x27])"

fun list_items :: "string list \<Rightarrow> string" where
  "list_items [] = []"
| "list_items [x] = quoted x"
| "list_items (x # y # ys) = quoted x @ '', '' @ list_items (y # ys)"

definition list_text :: "string list \<Rightarrow> string" where
  "list_text xs = CHR ''['' # list_items xs @ [CHR '']'']"

fun item_tokens :: "string list \<Rightarrow> token list" where
  "item_tokens [] = []"
| "item_tokens [x] = [StrLit x]"
| "item_tokens (x # y # ys) = StrLit x # Comma # item_tokens (y # ys)"

subsection \<open>The two formats compared\<close>







section \<open>Example inputs\<close>

text \<open>
  An instance of the parameter \<open>to_float\<close> for the examples: it reads a text of decimal
  digits as the number it denotes and takes any other text for no number. The only texts
  the examples put into an hour column are of these two kinds.
\<close>

definition digits_to_float :: "string \<Rightarrow> cell" where
  "digits_to_float s =
     (if s \<noteq> [] \<and> list_all (\<lambda>c. 48 \<le> (of_char c :: nat) \<and> (of_char c :: nat) \<le> 57) s
      then Num (of_nat (foldl (\<lambda>n c. 10 * n + (of_char c - 48)) 0 s))
      else NaN)"

text \<open>An instance of the parameter \<open>out_of_range\<close> for the examples, none of which reaches
  it: the lowest int64, which is what the usual platforms give for a float64 column.\<close>

definition lowest_int64 :: "real \<Rightarrow> int" where
  "lowest_int64 r = - (2 ^ 63)"

text \<open>A column written as the list of its values, for the row labels 0, 1, 2 and so on.\<close>

definition series :: "cell list \<Rightarrow> nat \<Rightarrow> cell" where
  "series xs i = (if i < length xs then xs ! i else NaN)"

text \<open>The tables of the crime examples; every row is timestamped 2024-03-01T14:30:00.\<close>

definition march_first :: cell where
  "march_first = Ts (timestamp 2024 3 1 14 30 0)"

definition crime_table :: frame where
  "crime_table =
     \<lparr>index = [0, 1, 2, 3, 4],
      columns =
        [(''OCCURRED_ON_DATE'', \<lparr>dtype = Datetime64, vals = (\<lambda>i. march_first)\<rparr>),
         (''SHOOTING'', \<lparr>dtype = Plain, vals = series [Str ''Y'', NaN, NaN, NaN, NaN]\<rparr>),
         (''Lat'', \<lparr>dtype = Plain, vals = series [Num 42, Num 0, Num (- 1), NaN, Num 42]\<rparr>),
         (''Long'', \<lparr>dtype = Plain, vals = series [Num (- 71), Num 0, Num (- 1), Num (- 71), Num (- 1)]\<rparr>)]\<rparr>"

definition crime_table_hour :: frame where
  "crime_table_hour =
     \<lparr>index = [0, 1, 2],
      columns =
        [(''OCCURRED_ON_DATE'', \<lparr>dtype = Datetime64, vals = (\<lambda>i. march_first)\<rparr>),
         (''HOUR'', \<lparr>dtype = Plain, vals = series [Num 25, Str ''abc'', Num (- 3)]\<rparr>),
         (''Lat'', \<lparr>dtype = Plain, vals = (\<lambda>i. Num 42)\<rparr>),
         (''Long'', \<lparr>dtype = Plain, vals = (\<lambda>i. Num (- 71))\<rparr>)]\<rparr>"

definition crime_table_shooting_n :: frame where
  "crime_table_shooting_n =
     \<lparr>index = [0, 1],
      columns =
        [(''OCCURRED_ON_DATE'', \<lparr>dtype = Datetime64, vals = (\<lambda>i. march_first)\<rparr>),
         (''SHOOTING'', \<lparr>dtype = Plain, vals = series [Str ''Y'', Str ''N'']\<rparr>),
         (''Lat'', \<lparr>dtype = Plain, vals = (\<lambda>i. Num 42)\<rparr>),
         (''Long'', \<lparr>dtype = Plain, vals = (\<lambda>i. Num (- 71))\<rparr>)]\<rparr>"

definition crime_table_no_date :: frame where
  "crime_table_no_date =
     \<lparr>index = [0],
      columns =
        [(''Lat'', \<lparr>dtype = Plain, vals = (\<lambda>i. Num 42)\<rparr>),
         (''Long'', \<lparr>dtype = Plain, vals = (\<lambda>i. Num (- 71))\<rparr>)]\<rparr>"

text \<open>A table whose latitude column the library reads as text, because one of its values
  is no number: the rows written \<^verbatim>\<open>0\<close> and \<^verbatim>\<open>-1\<close> hold the strings, not the numbers.\<close>

definition crime_table_text_lat :: frame where
  "crime_table_text_lat =
     \<lparr>index = [0, 1, 2, 3],
      columns =
        [(''OCCURRED_ON_DATE'', \<lparr>dtype = Datetime64, vals = (\<lambda>i. march_first)\<rparr>),
         (''Lat'', \<lparr>dtype = Plain,
                   vals = series [Str ''0'', Str ''-1'', Str ''north'', Str ''42'']\<rparr>),
         (''Long'', \<lparr>dtype = Plain, vals = (\<lambda>i. Num (- 71))\<rparr>)]\<rparr>"


text \<open>An instance of the parameter \<open>eval_rest\<close> for the examples; none of them reaches it.\<close>

definition reject_rest :: "string \<Rightarrow> py_error + cell" where
  "reject_rest s = Inl SyntaxError"

definition movies_empty_table :: frame where
  "movies_empty_table =
     \<lparr>index = [],
      columns = [(''title'', \<lparr>dtype = Plain, vals = series []\<rparr>),
                 (''genreList'', \<lparr>dtype = Plain, vals = series []\<rparr>)]\<rparr>"

definition movies_empty_csv :: uploaded where
  "movies_empty_csv =
     \<lparr>name = ''movies.csv'', as_csv = Inr movies_empty_table, as_json = Inl JSONDecodeError\<rparr>"

definition movies_table :: frame where
  "movies_table =
     \<lparr>index = [0, 1],
      columns =
        [(''title'', \<lparr>dtype = Plain, vals = series [Str ''Heat'', Str ''Ran'']\<rparr>),
         (''castList'', \<lparr>dtype = Plain, vals = series [Str ''['A', 'B']'', Str ''[]'']\<rparr>)]\<rparr>"

definition movies_csv :: uploaded where
  "movies_csv = \<lparr>name = ''movies.csv'', as_csv = Inr movies_table, as_json = Inl JSONDecodeError\<rparr>"

definition movies_unclosed_table :: frame where
  "movies_unclosed_table =
     \<lparr>index = [0, 1],
      columns =
        [(''title'', \<lparr>dtype = Plain, vals = series [Str ''Heat'', Str ''Ran'']\<rparr>),
         (''castList'', \<lparr>dtype = Plain, vals = series [Str ''['A', 'B']'', Str ''['A', 'B'']\<rparr>)]\<rparr>"

definition movies_unclosed_csv :: uploaded where
  "movies_unclosed_csv =
     \<lparr>name = ''movies.csv'', as_csv = Inr movies_unclosed_table, as_json = Inl JSONDecodeError\<rparr>"

definition movies_broken_json :: uploaded where
  "movies_broken_json =
     \<lparr>name = ''movies.json'', as_csv = Inl ParserError, as_json = Inl JSONDecodeError\<rparr>"

definition movies_first_missing_table :: frame where
  "movies_first_missing_table =
     \<lparr>index = [0, 1],
      columns =
        [(''title'', \<lparr>dtype = Plain, vals = series [Str ''Heat'', Str ''Ran'']\<rparr>),
         (''castList'', \<lparr>dtype = Plain, vals = series [NaN, Str ''['A', 'B'']\<rparr>)]\<rparr>"

definition movies_first_missing_csv :: uploaded where
  "movies_first_missing_csv =
     \<lparr>name = ''movies.csv'', as_csv = Inr movies_first_missing_table,
      as_json = Inl JSONDecodeError\<rparr>"

definition movies_undecoded_table :: frame where
  "movies_undecoded_table =
     \<lparr>index = [0, 1],
      columns =
        [(''castList'', \<lparr>dtype = Plain, vals = series [NaN, Str ''['A', 'B']'']\<rparr>),
         (''genreList'', \<lparr>dtype = Plain, vals = series [Str ''\"Drama\"'', Str ''[]'']\<rparr>)]\<rparr>"

definition movies_undecoded_csv :: uploaded where
  "movies_undecoded_csv =
     \<lparr>name = ''movies.csv'', as_csv = Inr movies_undecoded_table, as_json = Inl JSONDecodeError\<rparr>"







section \<open>Properties of the crime loader\<close>

lemma and_then_Inr:
  "and_then r f = Inr y \<longleftrightarrow> (\<exists>x. r = Inr x \<and> f x = Inr y)"
  by (cases r) (simp_all add: and_then_def)

lemma getitem_Inr: "getitem df col = Inr s \<longleftrightarrow> map_of (columns df) col = Some s"
  by (simp add: getitem_def split: option.splits)

lemma index_setitem: "index (setitem df col s) = index df"
  by (simp add: setitem_def)

lemma lookup_setitem:
  "map_of (columns (setitem df col s)) c = (if c = col then Some s else map_of (columns df) c)"
  by (simp add: setitem_def update_conv')

lemma index_convert_categories: "index (convert_categories cols df) = index df"
  by (induction cols arbitrary: df) (simp_all add: index_setitem split: option.splits)

lemma astype_category_idem:
  "astype_category idx (astype_category idx s) = astype_category idx s"
  by (simp add: astype_category_def)

lemma lookup_convert_categories:
  "map_of (columns (convert_categories cols df)) c =
     (case map_of (columns df) c of
        None \<Rightarrow> None
      | Some s \<Rightarrow> Some (if c \<in> set cols then astype_category (index df) s else s))"
proof (induction cols arbitrary: df)
  case Nil
  then show ?case by (simp split: option.splits)
next
  case (Cons col cols)
  show ?case
  proof (cases "map_of (columns df) col")
    case None
    then show ?thesis using Cons.IH [of df] by (auto split: option.splits)
  next
    case (Some s)
    then show ?thesis
      using Cons.IH [of "setitem df col (astype_category (index df) s)"]
      by (auto simp: lookup_setitem index_setitem astype_category_idem split: option.splits)
  qed
qed

lemma add_categories_Inr:
  "add_categories s c = Inr s1 \<longleftrightarrow>
     (\<exists>cs. dtype s = Category cs \<and> c \<notin> cs \<and>
        s1 = \<lparr>dtype = Category (insert c cs), vals = vals s\<rparr>)"
  by (auto simp: add_categories_def split: dtype.splits)

lemma fillna_Inr:
  "fillna s c = Inr s1 \<longleftrightarrow>
     (\<forall>cs. dtype s = Category cs \<longrightarrow> c \<in> cs) \<and>
     s1 = \<lparr>dtype = dtype s, vals = (\<lambda>i. if vals s i = NaN then c else vals s i)\<rparr>"
  by (auto simp: fillna_def Let_def split: dtype.splits)

lemma normalize_shooting_Inr:
  assumes "normalize_shooting df = Inr df1"
  shows "index df1 = index df"
    and "c \<noteq> ''SHOOTING'' \<Longrightarrow> map_of (columns df1) c = map_of (columns df) c"
    and "map_of (columns df) ''SHOOTING'' = None \<Longrightarrow>
           map_of (columns df1) ''SHOOTING'' = Some (broadcast (Str ''N''))"
    and "map_of (columns df) ''SHOOTING'' = Some s \<Longrightarrow>
           \<exists>cs. dtype s = Category cs \<and> Str ''N'' \<notin> cs \<and>
             map_of (columns df1) ''SHOOTING'' =
               Some \<lparr>dtype = Category (insert (Str ''N'') cs),
                     vals = (\<lambda>i. if vals s i = NaN then Str ''N'' else vals s i)\<rparr>"
  using assms
  by (auto simp: normalize_shooting_def has_column_def and_then_Inr getitem_Inr add_categories_Inr
        fillna_Inr index_setitem lookup_setitem
      split: if_splits cong: if_cong)

lemma add_is_shooting_Inr:
  assumes "add_is_shooting df = Inr df1"
  shows "index df1 = index df"
    and "c \<noteq> ''Is_Shooting'' \<Longrightarrow> map_of (columns df1) c = map_of (columns df) c"
    and "\<exists>s. map_of (columns df) ''SHOOTING'' = Some s \<and>
           map_of (columns df1) ''Is_Shooting'' = Some (eq_astype_int s (Str ''Y''))"
  using assms
  by (auto simp: add_is_shooting_def and_then_Inr getitem_Inr index_setitem lookup_setitem)

lemma first_error_None:
  "first_error rs = None \<longleftrightarrow> (\<forall>r \<in> set rs. \<exists>x. r = Inr x)"
  by (induction rs rule: first_error.induct) auto

lemma int_of_cell_Inr:
  "int_of_cell out_of_range c = Inr x \<longleftrightarrow> (\<exists>r. c = Num r \<and> x = Num (of_int (float_to_int64 out_of_range r)))"
  by (auto simp: int_of_cell_def split: cell.splits)

lemma astype_int_ok:
  "first_error (map (\<lambda>i. int_of_cell out_of_range (vals s i)) idx) = None \<longleftrightarrow>
     (\<forall>i \<in> set idx. \<exists>r. vals s i = Num r)"
  by (simp add: first_error_None int_of_cell_Inr)

lemma astype_int_Inr:
  "astype_int out_of_range idx s = Inr s1 \<longleftrightarrow>
     (\<forall>i \<in> set idx. \<exists>r. vals s i = Num r) \<and>
     s1 = \<lparr>dtype = Plain,
           vals = (\<lambda>i. case vals s i of Num r \<Rightarrow> Num (of_int (float_to_int64 out_of_range r)) | c \<Rightarrow> c)\<rparr>"
proof (cases "first_error (map (\<lambda>i. int_of_cell out_of_range (vals s i)) idx)")
  case None
  then show ?thesis
    using astype_int_ok [of out_of_range s idx] by (auto simp: astype_int_def)
next
  case (Some e)
  then show ?thesis
    using astype_int_ok [of out_of_range s idx] by (auto simp: astype_int_def)
qed

lemma fix_hour_Inr:
  assumes "fix_hour to_float out_of_range df = Inr df1"
  shows "index df1 = index df"
    and "c \<noteq> ''HOUR'' \<Longrightarrow> map_of (columns df1) c = map_of (columns df) c"
  using assms
  by (auto simp: fix_hour_def and_then_Inr index_setitem lookup_setitem split: if_splits)

lemma clean_coordinates_Inr:
  assumes "clean_coordinates df = Inr df1"
  shows "columns df1 = columns df"
    and "\<exists>lat long. map_of (columns df) ''Lat'' = Some lat \<and> map_of (columns df) ''Long'' = Some long \<and>
           index df1 = filter (\<lambda>i. vals lat i \<noteq> NaN \<and> vals long i \<noteq> NaN \<and>
                                   vals lat i \<noteq> Num (- 1) \<and> vals lat i \<noteq> Num 0) (index df)"
  using assms
  by (auto simp: clean_coordinates_def dropna_def and_then_Inr getitem_Inr select_rows_def
        intro: filter_cong)

lemma ensure_description_frame:
  "index (ensure_description df) = index df"
  "c \<noteq> ''OFFENSE_DESCRIPTION'' \<Longrightarrow>
     map_of (columns (ensure_description df)) c = map_of (columns df) c"
  by (simp_all add: ensure_description_def index_setitem lookup_setitem)

lemma load_data_crime_Some:
  "load_data_crime to_float out_of_range file = Some df' \<longleftrightarrow> load_data_crime_body to_float out_of_range file = Inr df'"
  by (simp add: load_data_crime_def split: sum.splits)

lemma read_csv_Inr:
  "read_csv file = Inr df \<longleftrightarrow> file = Table df \<and> map_of (columns df) ''OCCURRED_ON_DATE'' \<noteq> None"
  by (auto simp: read_csv_def has_column_def split: csv_file.splits)

lemma load_data_crime_body_steps:
  assumes "load_data_crime_body to_float out_of_range file = Inr df'"
  obtains df df1 df2 df3 df4 where
    "read_csv file = Inr df"
    "normalize_shooting (convert_categories categorical_cols df) = Inr df1"
    "add_is_shooting df1 = Inr df2"
    "fix_hour to_float out_of_range df2 = Inr df3"
    "clean_coordinates df3 = Inr df4"
    "df' = ensure_description df4"
  using assms unfolding load_data_crime_body_def and_then_Inr by blast

lemma float_to_int64_of_int:
  "- (2 ^ 63) \<le> z \<Longrightarrow> z < 2 ^ 63 \<Longrightarrow> float_to_int64 out_of_range (of_int z) = z"
  by (simp add: float_to_int64_def Let_def)

lemma hour_of_range: "0 \<le> hour_of t \<and> hour_of t \<le> 23"
proof -
  have "0 \<le> hour_of t \<and> hour_of t < 24"
    unfolding hour_of_def by simp
  then show ?thesis by simp
qed

lemma float_to_int64_hour: "float_to_int64 out_of_range (of_int (hour_of t)) = hour_of t"
  using hour_of_range [of t] by (intro float_to_int64_of_int) simp_all


lemma before_fix_hour:
  assumes "read_csv file = Inr df"
    "normalize_shooting (convert_categories categorical_cols df) = Inr df1"
    "add_is_shooting df1 = Inr df2"
  shows "index df2 = index df"
    and "c \<notin> set categorical_cols \<Longrightarrow> c \<noteq> ''Is_Shooting'' \<Longrightarrow>
           map_of (columns df2) c = map_of (columns df) c"
proof -
  show "index df2 = index df"
    using assms
    by (simp add: add_is_shooting_Inr(1) normalize_shooting_Inr(1) index_convert_categories)
  assume c: "c \<notin> set categorical_cols" "c \<noteq> ''Is_Shooting''"
  then have "c \<noteq> ''SHOOTING''" by (auto simp: categorical_cols_def)
  then have "map_of (columns df2) c = map_of (columns (convert_categories categorical_cols df)) c"
    using assms c by (simp add: add_is_shooting_Inr(2) normalize_shooting_Inr(2))
  also have "\<dots> = map_of (columns df) c"
    using c by (simp add: lookup_convert_categories split: option.splits)
  finally show "map_of (columns df2) c = map_of (columns df) c" .
qed

lemma after_fix_hour:
  assumes "clean_coordinates df3 = Inr df4"
  shows "set (index (ensure_description df4)) \<subseteq> set (index df3)"
    and "c \<noteq> ''OFFENSE_DESCRIPTION'' \<Longrightarrow>
           map_of (columns (ensure_description df4)) c = map_of (columns df3) c"
  using clean_coordinates_Inr [OF assms]
  by (auto simp: ensure_description_frame)

lemma fix_hour_present:
  assumes "fix_hour to_float out_of_range df = Inr df1" and "map_of (columns df) ''HOUR'' = Some h"
    and "i \<in> set (index df)"
  shows "\<exists>h1. map_of (columns df1) ''HOUR'' = Some h1 \<and>
           (coerce_numeric to_float (vals h i) = NaN \<and> vals h1 i = Num 0 \<or>
            (\<exists>r. coerce_numeric to_float (vals h i) = Num r \<and>
                  vals h1 i = Num (of_int (float_to_int64 out_of_range r))))"
proof -
  define s1 where
    "s1 = \<lparr>dtype = Plain,
            vals = (\<lambda>i. if coerce_numeric to_float (vals h i) = NaN then Num 0
                         else coerce_numeric to_float (vals h i))\<rparr>"
  have filled: "fillna (to_numeric to_float h) (Num 0) = Inr s \<longleftrightarrow> s = s1" for s
    by (auto simp: fillna_Inr to_numeric_def s1_def cong: if_cong)
  from assms(1,2) obtain s2 where s2: "astype_int out_of_range (index df) s1 = Inr s2"
    and df1: "df1 = setitem df ''HOUR'' s2"
    by (auto simp: fix_hour_def has_column_def and_then_Inr getitem_Inr filled)
  from s2 assms(3) obtain r where r: "vals s1 i = Num r"
    and v: "vals s2 i = Num (of_int (float_to_int64 out_of_range r))"
    by (auto simp: astype_int_Inr)
  have zero: "float_to_int64 out_of_range 0 = 0"
    by (simp add: float_to_int64_def)
  show ?thesis
  proof (cases "coerce_numeric to_float (vals h i) = NaN")
    case True
    then have "r = 0" using r by (simp add: s1_def)
    then show ?thesis using True v df1 zero by (simp add: lookup_setitem)
  next
    case False
    then have "coerce_numeric to_float (vals h i) = Num r" using r by (simp add: s1_def)
    then show ?thesis using v df1 by (simp add: lookup_setitem)
  qed
qed

lemma fix_hour_absent:
  assumes "fix_hour to_float out_of_range df = Inr df1" and "map_of (columns df) ''HOUR'' = None"
    and "i \<in> set (index df)"
  shows "\<exists>h1 d t. map_of (columns df1) ''HOUR'' = Some h1 \<and>
           map_of (columns df) ''OCCURRED_ON_DATE'' = Some d \<and> vals d i = Ts t \<and>
           vals h1 i = Num (of_int (hour_of t))"
  using assms
  by (auto simp: fix_hour_def has_column_def and_then_Inr getitem_Inr dt_hour_def astype_int_Inr
        lookup_setitem float_to_int64_hour split: if_splits cell.splits)

lemmas crime_eval =
  load_data_crime_def load_data_crime_body_def read_csv_def has_column_def
  and_then_def categorical_cols_def setitem_def astype_category_def normalize_shooting_def getitem_def
  add_categories_def fillna_def add_is_shooting_def eq_astype_int_def fix_hour_def dt_hour_def astype_int_def
  int_of_cell_def clean_coordinates_def dropna_def select_rows_def ensure_description_def broadcast_def
  to_numeric_def coerce_numeric_def series_def march_first_def cell_at_def


lemma load_data_crime_index:
  assumes "load_data_crime_body to_float out_of_range file = Inr df'"
  shows "\<exists>df lat long. file = Table df \<and>
           map_of (columns df) ''Lat'' = Some lat \<and> map_of (columns df) ''Long'' = Some long \<and>
           map_of (columns df') ''Lat'' = Some lat \<and> map_of (columns df') ''Long'' = Some long \<and>
           index df' = filter (\<lambda>i. vals lat i \<noteq> NaN \<and> vals long i \<noteq> NaN \<and>
                                    vals lat i \<noteq> Num (- 1) \<and> vals lat i \<noteq> Num 0) (index df)"
proof -
  from assms obtain df df1 df2 df3 df4 where
    steps: "read_csv file = Inr df"
      "normalize_shooting (convert_categories categorical_cols df) = Inr df1"
      "add_is_shooting df1 = Inr df2"
      "fix_hour to_float out_of_range df2 = Inr df3"
      "clean_coordinates df3 = Inr df4"
      "df' = ensure_description df4"
    by (rule load_data_crime_body_steps)
  have same: "map_of (columns df3) c = map_of (columns df) c"
    if "c = ''Lat'' \<or> c = ''Long''" for c
    using that before_fix_hour(2) [OF steps(1-3), of c] fix_hour_Inr(2) [OF steps(4), of c]
    by (auto simp: categorical_cols_def)
  have idx: "index df3 = index df"
    using before_fix_hour(1) [OF steps(1-3)] fix_hour_Inr(1) [OF steps(4)] by simp
  from clean_coordinates_Inr [OF steps(5)] obtain lat long where
    ll: "map_of (columns df3) ''Lat'' = Some lat" "map_of (columns df3) ''Long'' = Some long"
      "index df4 = filter (\<lambda>i. vals lat i \<noteq> NaN \<and> vals long i \<noteq> NaN \<and>
                                vals lat i \<noteq> Num (- 1) \<and> vals lat i \<noteq> Num 0) (index df3)"
    and cols: "columns df4 = columns df3"
    by blast
  have "map_of (columns df') ''Lat'' = Some lat" "map_of (columns df') ''Long'' = Some long"
    using ll cols steps(6) by (simp_all add: ensure_description_frame)
  moreover have "file = Table df"
    using steps(1) by (simp add: read_csv_Inr)
  ultimately show ?thesis
    using ll same idx steps(6) by (simp add: ensure_description_frame)
qed

subsection \<open>Coordinates\<close>



text \<open>
  Claim C3 as stated fails: in \<open>crime_table_text_lat\<close> the third latitude is the word
  \<^verbatim>\<open>north\<close>, so the whole column is text; the rows whose latitude is written \<^verbatim>\<open>0\<close> and
  \<^verbatim>\<open>-1\<close> are in the returned frame, with these latitudes.
\<close>

theorem crime_text_latitude_retained:
  "cell_at crime_table_text_lat ''Lat'' 0 = Some (Str ''0'') \<and>
   cell_at crime_table_text_lat ''Lat'' 1 = Some (Str ''-1'') \<and>
   cell_at (the (load_data_crime digits_to_float lowest_int64 (Table crime_table_text_lat)))
     ''Lat'' 0 = Some (Str ''0'') \<and>
   cell_at (the (load_data_crime digits_to_float lowest_int64 (Table crime_table_text_lat)))
     ''Lat'' 1 = Some (Str ''-1'')"
  by (simp add: crime_eval crime_table_text_lat_def)




subsection \<open>The hour of the day\<close>

lemma load_data_crime_hour:
  assumes "load_data_crime_body to_float out_of_range (Table df) = Inr df'" and "i \<in> set (index df')"
  shows "i \<in> set (index df)"
    and "map_of (columns df) ''HOUR'' = Some h \<Longrightarrow>
           coerce_numeric to_float (vals h i) = NaN \<and> cell_at df' ''HOUR'' i = Some (Num 0) \<or>
           (\<exists>r. coerce_numeric to_float (vals h i) = Num r \<and>
                 cell_at df' ''HOUR'' i = Some (Num (of_int (float_to_int64 out_of_range r))))"
    and "map_of (columns df) ''HOUR'' = None \<Longrightarrow>
           \<exists>d t. map_of (columns df) ''OCCURRED_ON_DATE'' = Some d \<and> vals d i = Ts t \<and>
             cell_at df' ''HOUR'' i = Some (Num (of_int (hour_of t)))"
proof -
  from assms(1) obtain df0 df1 df2 df3 df4 where
    steps: "read_csv (Table df) = Inr df0"
      "normalize_shooting (convert_categories categorical_cols df0) = Inr df1"
      "add_is_shooting df1 = Inr df2"
      "fix_hour to_float out_of_range df2 = Inr df3"
      "clean_coordinates df3 = Inr df4"
      "df' = ensure_description df4"
    by (rule load_data_crime_body_steps)
  have df0: "df0 = df"
    using steps(1) by (simp add: read_csv_Inr)
  have idx2: "index df2 = index df"
    using before_fix_hour(1) [OF steps(1-3)] df0 by simp
  have same: "map_of (columns df2) c = map_of (columns df) c"
    if "c = ''HOUR'' \<or> c = ''OCCURRED_ON_DATE''" for c
    using that before_fix_hour(2) [OF steps(1-3), of c] df0
    by (auto simp: categorical_cols_def)
  have i3: "i \<in> set (index df3)"
    using after_fix_hour(1) [OF steps(5)] assms(2) steps(6) by auto
  then have i2: "i \<in> set (index df2)"
    using fix_hour_Inr(1) [OF steps(4)] by simp
  then show "i \<in> set (index df)"
    using idx2 by simp
  have out: "map_of (columns df') ''HOUR'' = map_of (columns df3) ''HOUR''"
    using after_fix_hour(2) [OF steps(5), of "''HOUR''"] steps(6) by simp
  {
    assume h: "map_of (columns df) ''HOUR'' = Some h"
    then have "map_of (columns df2) ''HOUR'' = Some h"
      using same by simp
    from fix_hour_present [OF steps(4) this i2]
    show "coerce_numeric to_float (vals h i) = NaN \<and> cell_at df' ''HOUR'' i = Some (Num 0) \<or>
           (\<exists>r. coerce_numeric to_float (vals h i) = Num r \<and>
                 cell_at df' ''HOUR'' i = Some (Num (of_int (float_to_int64 out_of_range r))))"
      using out assms(2) by (auto simp: cell_at_def)
  }
  {
    assume "map_of (columns df) ''HOUR'' = None"
    then have "map_of (columns df2) ''HOUR'' = None"
      using same by simp
    from fix_hour_absent [OF steps(4) this i2]
    show "\<exists>d t. map_of (columns df) ''OCCURRED_ON_DATE'' = Some d \<and> vals d i = Ts t \<and>
             cell_at df' ''HOUR'' i = Some (Num (of_int (hour_of t)))"
      using out assms(2) same by (auto simp: cell_at_def)
  }
qed



text \<open>
  Claim C9, as amended. Every row of a frame returned by the crime loader has an integer
  as its hour; when the table has no hour column, so that the hour comes from the
  timestamp, it lies between 0 and 23. An hour column of the file is cast to integers and
  not checked against any range.
\<close>

theorem crime_hour_integer:
  assumes "load_data_crime to_float out_of_range (Table df) = Some df'" and "i \<in> set (index df')"
  shows "\<exists>z. cell_at df' ''HOUR'' i = Some (Num (of_int z)) \<and>
           (\<not> has_column df ''HOUR'' \<longrightarrow> 0 \<le> z \<and> z \<le> 23)"
proof -
  from assms(1) have body: "load_data_crime_body to_float out_of_range (Table df) = Inr df'"
    by (simp add: load_data_crime_Some)
  note facts = load_data_crime_hour [OF body assms(2)]
  show ?thesis
  proof (cases "map_of (columns df) ''HOUR''")
    case None
    from facts(3) [OF this] obtain t where
      "cell_at df' ''HOUR'' i = Some (Num (of_int (hour_of t)))"
      by blast
    then show ?thesis
      using hour_of_range [of t] by blast
  next
    case (Some h)
    then have has: "has_column df ''HOUR''"
      by (simp add: has_column_def)
    from facts(2) [OF Some] have "cell_at df' ''HOUR'' i = Some (Num (of_int 0)) \<or>
        (\<exists>r. cell_at df' ''HOUR'' i = Some (Num (of_int (float_to_int64 out_of_range r))))"
      by auto
    then show ?thesis
      using has by blast
  qed
qed

theorem crime_hour_integer_witness:
  "load_data_crime digits_to_float lowest_int64 (Table crime_table) \<noteq> None \<and>
   4 \<in> set (index (the (load_data_crime digits_to_float lowest_int64 (Table crime_table)))) \<and>
   \<not> has_column crime_table ''HOUR'' \<and>
   cell_at (the (load_data_crime digits_to_float lowest_int64 (Table crime_table))) ''HOUR'' 4 = Some (Num 14)"
proof -
  let ?b = "the (load_data_crime digits_to_float lowest_int64 (Table crime_table))"
  have okb: "load_data_crime digits_to_float lowest_int64 (Table crime_table) \<noteq> None"
    by (simp add: crime_eval crime_table_def)
  then have someb: "load_data_crime digits_to_float lowest_int64 (Table crime_table) = Some ?b"
    by simp
  have rowb: "4 \<in> set (index ?b)"
    by (simp add: crime_eval crime_table_def)
  have hasb: "\<not> has_column crime_table ''HOUR''"
    by (simp add: has_column_def crime_table_def)
  have outb: "cell_at ?b ''HOUR'' 4 = Some (Num 14)"
    by (simp add: crime_eval crime_table_def float_to_int64_def hour_of_def timestamp_def
        days_from_civil_def)
  from crime_hour_integer [OF someb rowb] hasb outb
  have "\<exists>z. (14::real) = of_int z \<and> 0 \<le> z \<and> z \<le> 23"
    by simp
  then show ?thesis
    using okb rowb hasb outb by simp
qed

text \<open>
  Claim C9 as stated fails: row 0 of \<open>crime_table_hour\<close> has 25 in its hour column, and the
  loader keeps the row with hour 25.
\<close>

theorem crime_hour_out_of_range_retained:
  "cell_at (the (load_data_crime digits_to_float lowest_int64 (Table crime_table_hour))) ''HOUR'' 0 = Some (Num 25)"
  by (simp add: crime_eval crime_table_hour_def digits_to_float_def float_to_int64_def)

lemma and_then_Inl:
  "and_then r f = Inl e \<longleftrightarrow> r = Inl e \<or> (\<exists>x. r = Inr x \<and> f x = Inl e)"
  by (cases r) (simp_all add: and_then_def)

lemma load_data_crime_None:
  "load_data_crime to_float out_of_range file = None \<longleftrightarrow> (\<exists>e. load_data_crime_body to_float out_of_range file = Inl e)"
  by (simp add: load_data_crime_def split: sum.splits)

subsection \<open>The shooting flag\<close>

text \<open>
  The label \<^verbatim>\<open>"N"\<close> is added to the categories without a look at the categories already
  there, and \<^verbatim>\<open>add_categories\<close> raises on a label that exists. So a file with an \<^verbatim>\<open>"N"\<close>
  anywhere in its shooting column is rejected as a whole.
\<close>

lemma normalize_shooting_existing_label:
  assumes "map_of (columns df) ''SHOOTING'' = Some s" and "i \<in> set (index df)"
    and "vals s i = Str ''N''"
  shows "normalize_shooting (convert_categories categorical_cols df) = Inl ValueError"
proof -
  let ?df = "convert_categories categorical_cols df"
  have col: "map_of (columns ?df) ''SHOOTING'' = Some (astype_category (index df) s)"
    using assms(1) unfolding lookup_convert_categories by (simp add: categorical_cols_def)
  have "Str ''N'' \<in> set (filter (\<lambda>c. c \<noteq> NaN) (map (vals s) (index df)))"
    using assms(2,3) by (auto simp: image_iff intro: bexI [of _ i])
  then have "add_categories (astype_category (index df) s) (Str ''N'') = Inl ValueError"
    by (simp add: add_categories_def astype_category_def)
  then show ?thesis
    using col by (simp add: normalize_shooting_def has_column_def getitem_def and_then_def)
qed

lemma crime_shooting_label_present:
  assumes "cell_at df ''SHOOTING'' i = Some (Str ''N'')"
  shows "load_data_crime to_float out_of_range (Table df) = None"
proof -
  from assms obtain s where s: "map_of (columns df) ''SHOOTING'' = Some s"
    and i: "i \<in> set (index df)" and v: "vals s i = Str ''N''"
    by (auto simp: cell_at_def split: option.splits if_splits)
  have "\<exists>e. load_data_crime_body to_float out_of_range (Table df) = Inl e"
  proof (cases "read_csv (Table df)")
    case (Inl e)
    then show ?thesis by (simp add: load_data_crime_body_def and_then_def)
  next
    case (Inr df0)
    then have "df0 = df" by (simp add: read_csv_Inr)
    then show ?thesis
      using Inr normalize_shooting_existing_label [OF s i v]
      by (simp add: load_data_crime_body_def and_then_def)
  qed
  then show ?thesis by (simp add: load_data_crime_None)
qed

text \<open>
  On the files that are accepted the flag and the indicator are as intended: a missing
  flag, and every flag of a file without the column, is \<^verbatim>\<open>"N"\<close>; the indicator is 1 exactly
  for the flag \<^verbatim>\<open>"Y"\<close>.
\<close>

lemma crime_shooting_indicator:
  assumes "load_data_crime to_float out_of_range (Table df) = Some df'" and "i \<in> set (index df')"
  shows "\<exists>flag. cell_at df' ''SHOOTING'' i = Some flag \<and>
           flag = (case cell_at df ''SHOOTING'' i of
                     None \<Rightarrow> Str ''N'' | Some NaN \<Rightarrow> Str ''N'' | Some c \<Rightarrow> c) \<and>
           cell_at df' ''Is_Shooting'' i = Some (if flag = Str ''Y'' then Num 1 else Num 0)"
proof -
  from assms(1) have body: "load_data_crime_body to_float out_of_range (Table df) = Inr df'"
    by (simp add: load_data_crime_Some)
  then obtain df0 df1 df2 df3 df4 where
    steps: "read_csv (Table df) = Inr df0"
      "normalize_shooting (convert_categories categorical_cols df0) = Inr df1"
      "add_is_shooting df1 = Inr df2"
      "fix_hour to_float out_of_range df2 = Inr df3"
      "clean_coordinates df3 = Inr df4"
      "df' = ensure_description df4"
    by (rule load_data_crime_body_steps)
  have df0: "df0 = df"
    using steps(1) by (simp add: read_csv_Inr)
  have i: "i \<in> set (index df)"
    using load_data_crime_hour(1) [OF body assms(2)] .
  have later: "map_of (columns df') c = map_of (columns df2) c"
    if "c = ''SHOOTING'' \<or> c = ''Is_Shooting''" for c
    using that after_fix_hour(2) [OF steps(5), of c] fix_hour_Inr(2) [OF steps(4), of c] steps(6)
    by auto
  from add_is_shooting_Inr(3) [OF steps(3)] obtain s1 where
    s1: "map_of (columns df1) ''SHOOTING'' = Some s1"
    and ind: "map_of (columns df2) ''Is_Shooting'' = Some (eq_astype_int s1 (Str ''Y''))"
    by blast
  have s2: "map_of (columns df2) ''SHOOTING'' = Some s1"
    using add_is_shooting_Inr(2) [OF steps(3), of "''SHOOTING''"] s1 by simp
  have flag: "vals s1 i = (case cell_at df ''SHOOTING'' i of
                     None \<Rightarrow> Str ''N'' | Some NaN \<Rightarrow> Str ''N'' | Some c \<Rightarrow> c)"
  proof (cases "map_of (columns df) ''SHOOTING''")
    case None
    then have "map_of (columns (convert_categories categorical_cols df0)) ''SHOOTING'' = None"
      using df0 by (simp add: lookup_convert_categories)
    from normalize_shooting_Inr(3) [OF steps(2) this] s1 None show ?thesis
      by (simp add: broadcast_def cell_at_def)
  next
    case (Some s)
    then have "map_of (columns (convert_categories categorical_cols df0)) ''SHOOTING'' =
        Some (astype_category (index df) s)"
      using df0 unfolding lookup_convert_categories by (simp add: categorical_cols_def)
    from normalize_shooting_Inr(4) [OF steps(2) this] s1 Some i show ?thesis
      by (auto simp: astype_category_def cell_at_def split: cell.splits)
  qed
  show ?thesis
    using later [of "''SHOOTING''"] later [of "''Is_Shooting''"] s2 ind flag assms(2)
    by (simp add: cell_at_def eq_astype_int_def)
qed

text \<open>
  Claim C1 says that for every parseable file with a shooting column the loader returns a
  dataset with the missing flags replaced by \<^verbatim>\<open>"N"\<close>, the label being added to the allowed
  set if not already present, and that a row flagged \<^verbatim>\<open>"N"\<close> gets the indicator 0. The code
  does not do that on \<open>crime_table_shooting_n\<close>, whose row 1 is flagged \<^verbatim>\<open>"N"\<close>: the label is
  already present, \<^verbatim>\<open>add_categories\<close> raises, and the loader returns no dataset at all.
\<close>

theorem crime_shooting_n_rejected:
  "cell_at crime_table_shooting_n ''SHOOTING'' 1 = Some (Str ''N'') \<and>
   load_data_crime digits_to_float lowest_int64 (Table crime_table_shooting_n) = None"
  by (simp add: crime_eval crime_table_shooting_n_def)

subsection \<open>Failures\<close>

text \<open>
  Claim C2. Whatever exception the parsing or a cleaning step raises, the crime loader
  returns \<^verbatim>\<open>None\<close> instead of raising; and the script, whether the file was uploaded or is
  the local default, then shows its prompt and stops before any chart.
\<close>

theorem crime_loader_fail_soft:
  assumes "load_data_crime_body to_float out_of_range file = Inl e"
  shows "load_data_crime to_float out_of_range file = None \<and>
         main to_float out_of_range (Some file) local_file = Halted prompt \<and>
         main to_float out_of_range None (Some file) = Halted prompt"
  using assms by (simp add: load_data_crime_def main_def)

theorem crime_loader_fail_soft_witness:
  "load_data_crime_body digits_to_float lowest_int64 (Table crime_table_no_date) = Inl ValueError \<and>
   load_data_crime digits_to_float lowest_int64 (Table crime_table_no_date) = None \<and>
   main digits_to_float lowest_int64 (Some (Table crime_table_no_date)) None = Halted prompt"
proof -
  have raised: "load_data_crime_body digits_to_float lowest_int64 (Table crime_table_no_date) = Inl ValueError"
    by (simp add: load_data_crime_body_def read_csv_def has_column_def and_then_def
        crime_table_no_date_def)
  show ?thesis
    using raised crime_loader_fail_soft [OF raised, of None] by simp
qed

text \<open>Some of the failures: an unreadable file, a table without the date column, a table
  without a coordinate column.\<close>

lemma crime_loader_failures:
  "load_data_crime to_float out_of_range Malformed = None"
  "\<not> has_column df ''OCCURRED_ON_DATE'' \<Longrightarrow> load_data_crime to_float out_of_range (Table df) = None"
  "\<not> has_column df ''Lat'' \<or> \<not> has_column df ''Long'' \<Longrightarrow> load_data_crime to_float out_of_range (Table df) = None"
proof -
  show "load_data_crime to_float out_of_range Malformed = None"
    by (simp add: load_data_crime_def load_data_crime_body_def read_csv_def and_then_def)
  show "load_data_crime to_float out_of_range (Table df) = None" if "\<not> has_column df ''OCCURRED_ON_DATE''"
    using that
    by (simp add: load_data_crime_def load_data_crime_body_def read_csv_def and_then_def)
  show "load_data_crime to_float out_of_range (Table df) = None"
    if "\<not> has_column df ''Lat'' \<or> \<not> has_column df ''Long''"
  proof (cases "load_data_crime to_float out_of_range (Table df)")
    case None
    then show ?thesis .
  next
    case (Some df')
    then have "load_data_crime_body to_float out_of_range (Table df) = Inr df'"
      by (simp add: load_data_crime_Some)
    from load_data_crime_index [OF this] that show ?thesis
      by (auto simp: has_column_def)
  qed
qed

section \<open>Properties of the movie loader\<close>

lemmas movies_eval =
  load_data_movies_def parse_file_def endswith_def decode_list_column_def has_column_def getitem_def
  and_then_def iloc0_def is_str_def apply_eval_def py_eval_def eval_str_def parse_literal_def
  unclosed_bracket_def setitem_def series_def cell_at_def

lemma first_error_Some:
  "first_error rs = Some e \<Longrightarrow> Inl e \<in> set rs"
  by (induction rs rule: first_error.induct) auto

lemma apply_eval_Inr:
  "apply_eval ev idx s = Inr s1 \<longleftrightarrow>
     (\<forall>i \<in> set idx. \<exists>v. py_eval ev (vals s i) = Inr v) \<and>
     s1 = \<lparr>dtype = Plain,
           vals = (\<lambda>i. case py_eval ev (vals s i) of Inr v \<Rightarrow> v | Inl e \<Rightarrow> vals s i)\<rparr>"
proof (cases "first_error (map (\<lambda>i. py_eval ev (vals s i)) idx)")
  case None
  then show ?thesis
    using first_error_None [of "map (\<lambda>i. py_eval ev (vals s i)) idx"]
    by (auto simp: apply_eval_def)
next
  case (Some e)
  then have "Inl e \<in> set (map (\<lambda>i. py_eval ev (vals s i)) idx)"
    by (rule first_error_Some)
  then obtain i where "i \<in> set idx" "py_eval ev (vals s i) = Inl e"
    by auto
  then have "\<not> (\<forall>i \<in> set idx. \<exists>v. py_eval ev (vals s i) = Inr v)"
    by force
  then show ?thesis
    using Some by (simp add: apply_eval_def)
qed

lemma decode_absent:
  "map_of (columns df) col = None \<Longrightarrow> decode_list_column ev col df = Inr df"
  by (simp add: decode_list_column_def has_column_def)

lemma decode_empty:
  "map_of (columns df) col = Some s \<Longrightarrow> index df = [] \<Longrightarrow>
     decode_list_column ev col df = Inl IndexError"
  by (simp add: decode_list_column_def has_column_def getitem_def and_then_def iloc0_def)

lemma decode_not_str:
  "map_of (columns df) col = Some s \<Longrightarrow> index df = i0 # rest \<Longrightarrow> \<not> is_str (vals s i0) \<Longrightarrow>
     decode_list_column ev col df = Inr df"
  by (simp add: decode_list_column_def has_column_def getitem_def and_then_def iloc0_def)

lemma decode_str:
  "map_of (columns df) col = Some s \<Longrightarrow> index df = i0 # rest \<Longrightarrow> is_str (vals s i0) \<Longrightarrow>
     decode_list_column ev col df =
       and_then (apply_eval ev (index df) s) (\<lambda>s1. Inr (setitem df col s1))"
  by (simp add: decode_list_column_def has_column_def getitem_def and_then_def iloc0_def)

lemma decode_Inr:
  assumes "decode_list_column ev col df = Inr df1"
  shows "index df1 = index df"
    and "c \<noteq> col \<Longrightarrow> map_of (columns df1) c = map_of (columns df) c"
    and "(map_of (columns df1) c = None) = (map_of (columns df) c = None)"
proof -
  have "df1 = df \<or> (\<exists>s1. df1 = setitem df col s1 \<and> map_of (columns df) col \<noteq> None)"
    using assms
    by (auto simp: decode_list_column_def has_column_def and_then_Inr split: if_splits)
  then show "index df1 = index df"
    and "c \<noteq> col \<Longrightarrow> map_of (columns df1) c = map_of (columns df) c"
    and "(map_of (columns df1) c = None) = (map_of (columns df) c = None)"
    by (auto simp: index_setitem lookup_setitem split: if_splits)
qed

lemma decode_Inr_cells:
  assumes "decode_list_column ev col df = Inr df1"
    and "map_of (columns df) col = Some s" and "index df = i0 # rest"
  shows "is_str (vals s i0) \<Longrightarrow> i \<in> set (index df) \<Longrightarrow>
           \<exists>v. py_eval ev (vals s i) = Inr v \<and> cell_at df1 col i = Some v"
    and "\<not> is_str (vals s i0) \<Longrightarrow> df1 = df"
proof -
  show "df1 = df" if "\<not> is_str (vals s i0)"
    using assms decode_not_str [OF assms(2,3) that, of ev] by simp
  show "\<exists>v. py_eval ev (vals s i) = Inr v \<and> cell_at df1 col i = Some v"
    if str: "is_str (vals s i0)" and i: "i \<in> set (index df)"
  proof -
    note eq = decode_str [OF assms(2,3) str, of ev]
    from assms(1) obtain s1 where s1: "apply_eval ev (index df) s = Inr s1"
      and df1: "df1 = setitem df col s1"
      unfolding eq and_then_Inr by auto
    from s1 i obtain v where "py_eval ev (vals s i) = Inr v" "vals s1 i = v"
      by (auto simp: apply_eval_Inr)
    then show ?thesis
      using df1 i by (simp add: cell_at_def lookup_setitem index_setitem)
  qed
qed

lemma decode_Inl:
  assumes "map_of (columns df) col = Some s" and "index df = i0 # rest"
    and "is_str (vals s i0)" and "i \<in> set (index df)" and "py_eval ev (vals s i) = Inl e"
  shows "\<exists>e1. decode_list_column ev col df = Inl e1"
proof (cases "apply_eval ev (index df) s")
  case (Inl e1)
  then show ?thesis
    unfolding decode_str [OF assms(1-3)] by (simp add: and_then_def)
next
  case (Inr s1)
  then show ?thesis
    using assms(4,5) by (auto simp: apply_eval_Inr)
qed

lemma load_data_movies_steps:
  assumes "load_data_movies ev file = Inr df'"
  obtains df df1 df2 where
    "parse_file file = Inr df"
    "decode_list_column ev ''castList'' df = Inr df1"
    "decode_list_column ev ''directorList'' df1 = Inr df2"
    "decode_list_column ev ''genreList'' df2 = Inr df'"
  using assms unfolding load_data_movies_def and_then_Inr by blast

subsection \<open>A list column without rows\<close>

text \<open>
  Claim C10. When the file parses to a frame with no rows that has one of the three list
  columns, the loader raises \<^verbatim>\<open>IndexError\<close>: \<^verbatim>\<open>iloc[0]\<close> has no first value to look at. It
  does not return the empty frame.
\<close>

theorem movies_empty_list_column:
  assumes "parse_file file = Inr df" and "index df = []"
    and "has_column df ''castList'' \<or> has_column df ''directorList'' \<or> has_column df ''genreList''"
  shows "load_data_movies eval_rest file = Inl IndexError"
proof -
  have step: "decode_list_column eval_rest col d = Inl IndexError \<or>
      decode_list_column eval_rest col d = Inr d \<and> \<not> has_column d col"
    if "index d = []" for col and d :: frame
    using that decode_absent [of d col eval_rest] decode_empty [of d col _ eval_rest]
    by (cases "map_of (columns d) col") (auto simp: has_column_def)
  show ?thesis
    using assms step [of df "''castList''"] step [of df "''directorList''"]
      step [of df "''genreList''"]
    by (auto simp: load_data_movies_def and_then_def)
qed

theorem movies_empty_list_column_witness:
  "parse_file movies_empty_csv = Inr movies_empty_table \<and>
   index movies_empty_table = [] \<and>
   has_column movies_empty_table ''genreList'' \<and>
   load_data_movies reject_rest movies_empty_csv = Inl IndexError"
proof -
  have parsed: "parse_file movies_empty_csv = Inr movies_empty_table"
    by (simp add: parse_file_def endswith_def movies_empty_csv_def)
  have empty: "index movies_empty_table = []"
    by (simp add: movies_empty_table_def)
  have genre: "has_column movies_empty_table ''genreList''"
    by (simp add: has_column_def movies_empty_table_def)
  then have has: "has_column movies_empty_table ''castList'' \<or>
      has_column movies_empty_table ''directorList'' \<or>
      has_column movies_empty_table ''genreList''"
    by simp
  show ?thesis
    using parsed empty genre movies_empty_list_column [OF parsed empty has, of reject_rest]
    by simp
qed

subsection \<open>Failures of the decoding\<close>

lemma lex_RBracket:
  "lex st s = Some ts \<Longrightarrow> RBracket \<in> set ts \<Longrightarrow> CHR '']'' \<in> set s"
  by (induction st s arbitrary: ts rule: lex.induct) (auto split: if_splits)

lemma elements_RBracket:
  "elements ts = Some xs \<Longrightarrow> RBracket \<in> set ts"
  by (induction ts arbitrary: xs rule: elements.induct) auto

lemma unclosed_bracket_blank:
  "unclosed_bracket (CHR '' '' # cs) = unclosed_bracket cs"
  by (simp add: unclosed_bracket_def cong: list.case_cong)

lemma unclosed_bracket_first:
  assumes "unclosed_bracket (c # cs)" and "c \<noteq> CHR '' ''"
  shows "c = CHR 0x09 \<or> c = CHR ''[''"
proof (cases "c = CHR 0x09")
  case True
  then show ?thesis by simp
next
  case False
  then show ?thesis
    using assms by (simp add: unclosed_bracket_def)
qed

lemma lex_tab: "lex None (CHR 0x09 # cs) = None"
  by simp

lemma lex_bracket: "lex None (CHR ''['' # cs) = map_option ((#) LBracket) (lex None cs)"
  by simp

lemma lex_unclosed:
  "unclosed_bracket s \<Longrightarrow> lex None s = Some ts \<Longrightarrow> \<exists>ts1. ts = LBracket # ts1"
proof (induction s)
  case Nil
  then show ?case by (simp add: unclosed_bracket_def)
next
  case (Cons c cs)
  show ?case
  proof (cases "c = CHR '' ''")
    case True
    then have "unclosed_bracket cs"
      using Cons.prems(1) by (simp add: unclosed_bracket_blank)
    moreover have "lex None cs = Some ts"
      using Cons.prems(2) True by simp
    ultimately show ?thesis by (rule Cons.IH)
  next
    case False
    from unclosed_bracket_first [OF Cons.prems(1) False] show ?thesis
    proof
      assume "c = CHR 0x09"
      then show ?thesis
        using Cons.prems(2) by (simp only: lex_tab) simp
    next
      assume "c = CHR ''[''"
      then have "map_option ((#) LBracket) (lex None cs) = Some ts"
        using Cons.prems(2) by (simp only: lex_bracket)
      then show ?thesis by auto
    qed
  qed
qed

lemma literal_of_Some:
  "literal_of ts = Some v \<Longrightarrow> (\<exists>x. ts = [StrLit x]) \<or> RBracket \<in> set ts"
  by (induction ts rule: literal_of.induct) (auto dest: elements_RBracket)

lemma parse_literal_unclosed:
  assumes "unclosed_bracket s"
  shows "parse_literal s = None"
proof (cases "lex None s")
  case None
  then show ?thesis by (simp add: parse_literal_def)
next
  case (Some ts)
  from lex_unclosed [OF assms Some] obtain ts1 where ts: "ts = LBracket # ts1"
    by blast
  have "CHR '']'' \<notin> set s"
    using assms by (auto simp: unclosed_bracket_def split: list.splits)
  then have "RBracket \<notin> set ts"
    using lex_RBracket [OF Some] by blast
  then have "literal_of ts = None"
    using literal_of_Some [of ts] ts by (cases "literal_of ts") auto
  then show ?thesis
    using Some by (simp add: parse_literal_def)
qed

lemma py_eval_unclosed:
  "unclosed_bracket s \<Longrightarrow> py_eval ev (Str s) = Inl SyntaxError"
  by (simp add: py_eval_def eval_str_def parse_literal_unclosed)

lemma py_eval_Inr:
  "py_eval ev x = Inr v \<longleftrightarrow> (\<exists>s. x = Str s \<and> eval_str ev s = Inr v)"
  by (cases x) (simp_all add: py_eval_def)

lemma cell_at_decode_other:
  "decode_list_column ev c d = Inr d1 \<Longrightarrow> c \<noteq> col \<Longrightarrow> cell_at d1 col i = cell_at d col i"
  using decode_Inr(1) [of ev c d d1] decode_Inr(2) [of ev c d d1 col]
  by (simp add: cell_at_def cong: option.case_cong)

lemma cell_at_decode_same:
  assumes "decode_list_column ev col d = Inr d1" and "index d = i0 # rest"
    and "i \<in> set (index d)"
  shows "cell_at d col i0 = Some (Str s0) \<Longrightarrow>
           \<exists>s v. cell_at d col i = Some (Str s) \<and> eval_str ev s = Inr v \<and>
                 cell_at d1 col i = Some v"
    and "cell_at d col i0 = Some x \<Longrightarrow> \<not> is_str x \<Longrightarrow> cell_at d1 col i = cell_at d col i"
proof -
  show "\<exists>s v. cell_at d col i = Some (Str s) \<and> eval_str ev s = Inr v \<and> cell_at d1 col i = Some v"
    if first: "cell_at d col i0 = Some (Str s0)"
  proof -
    from first obtain s where s: "map_of (columns d) col = Some s" and "vals s i0 = Str s0"
      by (auto simp: cell_at_def split: option.splits if_splits)
    then have "is_str (vals s i0)"
      by (simp add: is_str_def)
    from decode_Inr_cells(1) [OF assms(1) s assms(2) this assms(3)]
    show ?thesis
      using s assms(3) by (auto simp: py_eval_Inr cell_at_def)
  qed
  show "cell_at d1 col i = cell_at d col i"
    if first: "cell_at d col i0 = Some x" and x: "\<not> is_str x"
  proof -
    from first obtain s where s: "map_of (columns d) col = Some s" and "vals s i0 = x"
      by (auto simp: cell_at_def split: option.splits if_splits)
    with x have "\<not> is_str (vals s i0)"
      by simp
    from decode_Inr_cells(2) [OF assms(1) s assms(2) this]
    show ?thesis by simp
  qed
qed

text \<open>
  Claim C5, as amended. A failure of the parser chosen by the file name is the failure of
  the load. In a list column whose first value is a string, a value on which \<^verbatim>\<open>eval\<close>
  raises makes the load raise, whatever the other rows hold: no row is dropped and no
  frame is returned. A text that opens a bracket and never closes it is such a value.
  (A list column whose first value is no string is not decoded, and \<^verbatim>\<open>eval\<close> accepts
  texts that are no list.)
\<close>

theorem movies_fail_fast:
  "(parse_file file = Inl e \<longrightarrow> load_data_movies eval_rest file = Inl e) \<and>
   (parse_file file = Inr df \<and>
    (col = ''castList'' \<or> col = ''directorList'' \<or> col = ''genreList'') \<and>
    index df = i0 # rest \<and> cell_at df col i0 = Some (Str s0) \<and>
    cell_at df col i = Some x \<and> py_eval eval_rest x = Inl e1 \<longrightarrow>
      (\<exists>e2. load_data_movies eval_rest file = Inl e2)) \<and>
   (unclosed_bracket s \<longrightarrow> py_eval eval_rest (Str s) = Inl SyntaxError)"
proof (intro conjI impI)
  show "load_data_movies eval_rest file = Inl e" if "parse_file file = Inl e"
    using that by (simp add: load_data_movies_def and_then_def)
  show "py_eval eval_rest (Str s) = Inl SyntaxError" if "unclosed_bracket s"
    using that by (rule py_eval_unclosed)
  show "\<exists>e2. load_data_movies eval_rest file = Inl e2"
    if hyp: "parse_file file = Inr df \<and>
      (col = ''castList'' \<or> col = ''directorList'' \<or> col = ''genreList'') \<and>
      index df = i0 # rest \<and> cell_at df col i0 = Some (Str s0) \<and>
      cell_at df col i = Some x \<and> py_eval eval_rest x = Inl e1"
  proof (rule ccontr)
    assume "\<nexists>e2. load_data_movies eval_rest file = Inl e2"
    then obtain df' where "load_data_movies eval_rest file = Inr df'"
      by (cases "load_data_movies eval_rest file") auto
    then obtain d0 d1 d2 where
      steps: "parse_file file = Inr d0"
        "decode_list_column eval_rest ''castList'' d0 = Inr d1"
        "decode_list_column eval_rest ''directorList'' d1 = Inr d2"
        "decode_list_column eval_rest ''genreList'' d2 = Inr df'"
      by (rule load_data_movies_steps)
    have d0: "d0 = df"
      using steps(1) hyp by simp
    have i: "i \<in> set (index df)"
      using hyp by (auto simp: cell_at_def split: option.splits if_splits)
    have idx: "index d1 = index df" "index d2 = index df"
      using decode_Inr(1) [OF steps(2)] decode_Inr(1) [OF steps(3)] d0 by simp_all
    have fails: False
      if run: "decode_list_column eval_rest col d = Inr d3"
        and same: "cell_at d col i0 = cell_at df col i0" "cell_at d col i = cell_at df col i"
        and index: "index d = index df"
      for d d3 :: frame
    proof -
      from cell_at_decode_same(1) [OF run, of i0 rest i s0] same index hyp i
      obtain s v where "x = Str s" "eval_str eval_rest s = Inr v"
        by auto
      then show False
        using hyp by (simp add: py_eval_def)
    qed
    from hyp consider "col = ''castList''" | "col = ''directorList''" | "col = ''genreList''"
      by blast
    then show False
    proof cases
      case 1
      then show False
        using fails [of df d1] steps(2) d0 by simp
    next
      case 2
      then show False
        using fails [of d1 d2] steps(3) idx
          cell_at_decode_other [OF steps(2), of col] d0 by simp
    next
      case 3
      then show False
        using fails [of d2 df'] steps(4) idx
          cell_at_decode_other [OF steps(2), of col] cell_at_decode_other [OF steps(3), of col] d0
        by simp
    qed
  qed
qed

theorem movies_fail_fast_witness:
  "parse_file movies_broken_json = Inl JSONDecodeError \<and>
   load_data_movies reject_rest movies_broken_json = Inl JSONDecodeError \<and>
   parse_file movies_unclosed_csv = Inr movies_unclosed_table \<and>
   index movies_unclosed_table = [0, 1] \<and>
   cell_at movies_unclosed_table ''castList'' 0 = Some (Str ''['A', 'B']'') \<and>
   cell_at movies_unclosed_table ''castList'' 1 = Some (Str ''['A', 'B'') \<and>
   unclosed_bracket ''['A', 'B'' \<and>
   py_eval reject_rest (Str ''['A', 'B'') = Inl SyntaxError \<and>
   (\<exists>e. load_data_movies reject_rest movies_unclosed_csv = Inl e)"
proof -
  have broken: "parse_file movies_broken_json = Inl JSONDecodeError"
    by (simp add: parse_file_def endswith_def movies_broken_json_def)
  have parsed: "parse_file movies_unclosed_csv = Inr movies_unclosed_table"
    by (simp add: parse_file_def endswith_def movies_unclosed_csv_def)
  have idx: "index movies_unclosed_table = 0 # [1]"
    by (simp add: movies_unclosed_table_def)
  have first: "cell_at movies_unclosed_table ''castList'' 0 = Some (Str ''['A', 'B']'')"
    by (simp add: cell_at_def movies_unclosed_table_def series_def)
  have second: "cell_at movies_unclosed_table ''castList'' 1 = Some (Str ''['A', 'B'')"
    by (simp add: cell_at_def movies_unclosed_table_def series_def)
  have unclosed: "unclosed_bracket ''['A', 'B''"
    by (simp add: unclosed_bracket_def)
  note thm1 = movies_fail_fast [of movies_broken_json JSONDecodeError reject_rest]
  note thm2 = movies_fail_fast [of movies_unclosed_csv _ reject_rest movies_unclosed_table
      "''castList''" 0 "[1]" "''['A', 'B']''" 1 "Str ''['A', 'B''" SyntaxError "''['A', 'B''"]
  from thm2 unclosed have raised: "py_eval reject_rest (Str ''['A', 'B'') = Inl SyntaxError"
    by blast
  from thm1 broken have "load_data_movies reject_rest movies_broken_json = Inl JSONDecodeError"
    by blast
  moreover from thm2 parsed idx first second raised
  have "\<exists>e. load_data_movies reject_rest movies_unclosed_csv = Inl e"
    by blast
  ultimately show ?thesis
    using broken parsed idx first second unclosed raised by simp
qed

text \<open>
  Claim C5 as stated fails: the second row of \<open>movies_first_missing_table\<close> holds a text with
  an unclosed bracket in its cast column, the first row holds no cast at all, and the load
  succeeds and returns the table as it was parsed.
\<close>

theorem movies_unclosed_text_accepted:
  "unclosed_bracket ''['A', 'B'' \<and>
   cell_at movies_first_missing_table ''castList'' 1 = Some (Str ''['A', 'B'') \<and>
   load_data_movies reject_rest movies_first_missing_csv = Inr movies_first_missing_table"
  by (simp add: movies_eval movies_first_missing_csv_def movies_first_missing_table_def)

subsection \<open>Decoding of the list columns\<close>

lemma lex_in_string:
  "q \<notin> set s \<Longrightarrow> list_all (\<lambda>c. c \<noteq> CHR 0x5C \<and> 32 \<le> (of_char c :: nat)) s \<Longrightarrow>
     lex (Some (q, acc)) (s @ q # rest) = map_option ((#) (StrLit (rev acc @ s))) (lex None rest)"
proof (induction s arbitrary: acc)
  case Nil
  then show ?case by simp
next
  case (Cons c s)
  then have c: "c \<noteq> q" "c \<noteq> CHR 0x5C" "\<not> (of_char c :: nat) < 32"
    by auto
  have "lex (Some (q, acc)) ((c # s) @ q # rest) = lex (Some (q, c # acc)) (s @ q # rest)"
    using c by simp
  also have "\<dots> = map_option ((#) (StrLit (rev (c # acc) @ s))) (lex None rest)"
    using Cons.prems by (intro Cons.IH) simp_all
  finally show ?case by simp
qed

lemma lex_open_single:
  "lex None (CHR 0x27 # cs) = lex (Some (CHR 0x27, [])) cs"
  by simp

lemma lex_open_double:
  "lex None (CHR 0x22 # cs) = lex (Some (CHR 0x22, [])) cs"
  by simp

lemma lex_quoted:
  assumes "plain s"
  shows "lex None (quoted s @ rest) = map_option ((#) (StrLit s)) (lex None rest)"
proof -
  have ok: "list_all (\<lambda>c. c \<noteq> CHR 0x5C \<and> 32 \<le> (of_char c :: nat)) s"
    using assms by (simp add: plain_def)
  show ?thesis
  proof (cases "CHR 0x27 \<in> set s \<and> CHR 0x22 \<notin> set s")
    case True
    then have q: "CHR 0x22 \<notin> set s" by simp
    have "lex None (quoted s @ rest) = lex (Some (CHR 0x22, [])) (s @ CHR 0x22 # rest)"
      using True by (simp only: quoted_def if_True append_Cons lex_open_double) simp
    then show ?thesis
      using lex_in_string [OF q ok, of "[]" rest] by simp
  next
    case False
    then have q: "CHR 0x27 \<notin> set s"
      using assms by (auto simp: plain_def)
    have "lex None (quoted s @ rest) = lex (Some (CHR 0x27, [])) (s @ CHR 0x27 # rest)"
      using False by (simp only: quoted_def if_False append_Cons lex_open_single) simp
    then show ?thesis
      using lex_in_string [OF q ok, of "[]" rest] by simp
  qed
qed

lemma lex_comma_blank:
  "lex None (CHR '','' # CHR '' '' # cs) = map_option ((#) Comma) (lex None cs)"
  by simp

lemma lex_list_items:
  "list_all plain xs \<Longrightarrow>
     lex None (list_items xs @ rest) = map_option ((@) (item_tokens xs)) (lex None rest)"
proof (induction xs rule: list_items.induct)
  case 1
  show ?case by (simp add: option.map_ident)
next
  case (2 x)
  then show ?case by (simp add: lex_quoted option.map_comp comp_def)
next
  case (3 x y ys)
  then have x: "plain x" and rest: "list_all plain (y # ys)"
    by simp_all
  have "lex None (list_items (x # y # ys) @ rest) =
      lex None (quoted x @ (CHR '','' # CHR '' '' # (list_items (y # ys) @ rest)))"
    by simp
  also have "\<dots> = map_option ((#) (StrLit x))
      (map_option ((#) Comma) (lex None (list_items (y # ys) @ rest)))"
    by (simp only: lex_quoted [OF x] lex_comma_blank)
  also have "\<dots> = map_option ((@) (item_tokens (x # y # ys))) (lex None rest)"
    by (cases "lex None rest") (simp_all add: "3.IH" [OF rest])
  finally show ?case .
qed

lemma lex_list_text:
  assumes "list_all plain xs"
  shows "lex None (list_text xs) = Some (LBracket # item_tokens xs @ [RBracket])"
proof -
  have "lex None (list_items xs @ [CHR '']'']) = Some (item_tokens xs @ [RBracket])"
    by (simp add: lex_list_items [OF assms])
  then show ?thesis
    by (simp add: list_text_def)
qed

lemma elements_more:
  "ts \<noteq> [RBracket] \<Longrightarrow> elements (StrLit x # Comma # ts) = map_option ((#) x) (elements ts)"
  by (cases "(StrLit x # Comma # ts)" rule: elements.cases) simp_all

lemma item_tokens_Nil: "item_tokens xs = [] \<longleftrightarrow> xs = []"
  by (cases xs rule: item_tokens.cases) simp_all

lemma elements_item_tokens:
  "xs \<noteq> [] \<Longrightarrow> elements (item_tokens xs @ [RBracket]) = Some xs"
proof (induction xs rule: item_tokens.induct)
  case 1
  then show ?case by simp
next
  case (2 x)
  show ?case by simp
next
  case (3 x y ys)
  have "item_tokens (y # ys) @ [RBracket] \<noteq> [RBracket]"
    by (simp add: item_tokens_Nil)
  then have "elements (StrLit x # Comma # (item_tokens (y # ys) @ [RBracket])) =
      map_option ((#) x) (elements (item_tokens (y # ys) @ [RBracket]))"
    by (rule elements_more)
  then show ?case
    using "3.IH" by simp
qed

lemma literal_of_item_tokens:
  "literal_of (LBracket # item_tokens xs @ [RBracket]) = Some (List (map Str xs))"
proof (cases xs)
  case Nil
  then show ?thesis by simp
next
  case (Cons x ys)
  then have "elements (item_tokens xs @ [RBracket]) = Some xs"
    by (intro elements_item_tokens) simp
  moreover obtain ts where "item_tokens xs @ [RBracket] = StrLit x # ts"
    using Cons by (cases ys) simp_all
  ultimately show ?thesis
    by simp
qed

lemma eval_str_list_text:
  "list_all plain xs \<Longrightarrow> eval_str ev (list_text xs) = Inr (List (map Str xs))"
  by (simp add: eval_str_def parse_literal_def lex_list_text literal_of_item_tokens)

lemma eval_str_examples:
  "eval_str ev ''['A', 'B']'' = Inr (List [Str ''A'', Str ''B''])"
  "eval_str ev ''[]'' = Inr (List [])"
  by (simp_all add: eval_str_def parse_literal_def)

text \<open>
  Claim C6, as amended. Let the load succeed on a frame with rows, and take one of the
  three list columns. If its first value is a string, every value of the column is a
  string and is replaced by what \<^verbatim>\<open>eval\<close> makes of it. For the text of a list of plain
  strings, of any length, that is the sequence of these strings: \<^verbatim>\<open>['A', 'B']\<close> gives
  the two strings and \<^verbatim>\<open>[]\<close> the empty sequence. If the first value of the column is no
  string, the column stays as it was parsed.
\<close>

theorem movies_list_decoding:
  assumes "load_data_movies eval_rest file = Inr df'" and "parse_file file = Inr df"
    and "col = ''castList'' \<or> col = ''directorList'' \<or> col = ''genreList''"
    and "index df = i0 # rest" and "i \<in> set (index df)"
  shows "(\<forall>s0. cell_at df col i0 = Some (Str s0) \<longrightarrow>
            (\<exists>s v. cell_at df col i = Some (Str s) \<and> eval_str eval_rest s = Inr v \<and>
                   cell_at df' col i = Some v) \<and>
            (\<forall>xs. list_all plain xs \<and> cell_at df col i = Some (Str (list_text xs)) \<longrightarrow>
                   cell_at df' col i = Some (List (map Str xs)))) \<and>
         (\<forall>x. cell_at df col i0 = Some x \<and> \<not> is_str x \<longrightarrow>
            cell_at df' col i = cell_at df col i) \<and>
         (\<forall>xs. list_all plain xs \<longrightarrow>
            eval_str eval_rest (list_text xs) = Inr (List (map Str xs))) \<and>
         list_text [''A'', ''B''] = ''['A', 'B']'' \<and> list_text [] = ''[]'' \<and>
         eval_str eval_rest ''['A', 'B']'' = Inr (List [Str ''A'', Str ''B'']) \<and>
         eval_str eval_rest ''[]'' = Inr (List [])"
proof -
  from assms(1) obtain d0 d1 d2 where
    steps: "parse_file file = Inr d0"
      "decode_list_column eval_rest ''castList'' d0 = Inr d1"
      "decode_list_column eval_rest ''directorList'' d1 = Inr d2"
      "decode_list_column eval_rest ''genreList'' d2 = Inr df'"
    by (rule load_data_movies_steps)
  have d0: "d0 = df"
    using steps(1) assms(2) by simp
  have idx: "index d1 = index df" "index d2 = index df"
    using decode_Inr(1) [OF steps(2)] decode_Inr(1) [OF steps(3)] d0 by simp_all
  have step: "(\<forall>s0. cell_at d col i0 = Some (Str s0) \<longrightarrow>
            (\<exists>s v. cell_at d col i = Some (Str s) \<and> eval_str eval_rest s = Inr v \<and>
                   cell_at d3 col i = Some v)) \<and>
         (\<forall>x. cell_at d col i0 = Some x \<and> \<not> is_str x \<longrightarrow> cell_at d3 col i = cell_at d col i)"
    if run: "decode_list_column eval_rest col d = Inr d3" and index: "index d = index df"
    for d d3 :: frame
  proof -
    have a: "index d = i0 # rest" "i \<in> set (index d)"
      using index assms(4,5) by simp_all
    show ?thesis
      using cell_at_decode_same(1) [OF run a] cell_at_decode_same(2) [OF run a] by blast
  qed
  have main: "(\<forall>s0. cell_at df col i0 = Some (Str s0) \<longrightarrow>
            (\<exists>s v. cell_at df col i = Some (Str s) \<and> eval_str eval_rest s = Inr v \<and>
                   cell_at df' col i = Some v)) \<and>
         (\<forall>x. cell_at df col i0 = Some x \<and> \<not> is_str x \<longrightarrow> cell_at df' col i = cell_at df col i)"
  proof -
    from assms(3) consider "col = ''castList''" | "col = ''directorList''" | "col = ''genreList''"
      by blast
    then show ?thesis
    proof cases
      case 1
      have later: "cell_at df' col j = cell_at d1 col j" for j
        using cell_at_decode_other [OF steps(3), of col j] cell_at_decode_other [OF steps(4), of col j] 1
        by simp
      show ?thesis
        using step [of df d1] steps(2) d0 1 later by simp
    next
      case 2
      have before: "cell_at d1 col j = cell_at df col j" for j
        using cell_at_decode_other [OF steps(2), of col j] d0 2 by simp
      have later: "cell_at df' col j = cell_at d2 col j" for j
        using cell_at_decode_other [OF steps(4), of col j] 2 by simp
      show ?thesis
        using step [of d1 d2] steps(3) idx 2 before later by simp
    next
      case 3
      have before: "cell_at d2 col j = cell_at df col j" for j
        using cell_at_decode_other [OF steps(2), of col j]
          cell_at_decode_other [OF steps(3), of col j] d0 3 by simp
      show ?thesis
        using step [of d2 df'] steps(4) idx 3 before by simp
    qed
  qed
  have decoded: "cell_at df' col i = Some (List (map Str xs))"
    if first: "cell_at df col i0 = Some (Str s0)" and xs: "list_all plain xs"
      and cell: "cell_at df col i = Some (Str (list_text xs))" for s0 xs
  proof -
    from main first obtain s v where "cell_at df col i = Some (Str s)"
      "eval_str eval_rest s = Inr v" "cell_at df' col i = Some v"
      by blast
    then show ?thesis
      using cell eval_str_list_text [OF xs, of eval_rest] by simp
  qed
  have written: "list_text [''A'', ''B''] = ''['A', 'B']''" "list_text [] = ''[]''"
    by (simp_all add: list_text_def quoted_def)
  show ?thesis
    using main decoded written eval_str_list_text [of _ eval_rest]
      eval_str_examples [of eval_rest]
    by blast
qed

theorem movies_list_decoding_witness:
  "parse_file movies_csv = Inr movies_table \<and>
   index movies_table = [0, 1] \<and>
   cell_at movies_table ''castList'' 0 = Some (Str ''['A', 'B']'') \<and>
   cell_at movies_table ''castList'' 1 = Some (Str ''[]'') \<and>
   \<not> isl (load_data_movies reject_rest movies_csv) \<and>
   cell_at (projr (load_data_movies reject_rest movies_csv)) ''castList'' 0 =
     Some (List [Str ''A'', Str ''B'']) \<and>
   cell_at (projr (load_data_movies reject_rest movies_csv)) ''castList'' 1 = Some (List [])"
proof -
  let ?out = "projr (load_data_movies reject_rest movies_csv)"
  have parsed: "parse_file movies_csv = Inr movies_table"
    by (simp add: parse_file_def endswith_def movies_csv_def)
  have idx: "index movies_table = 0 # [1]"
    by (simp add: movies_table_def)
  have first: "cell_at movies_table ''castList'' 0 = Some (Str ''['A', 'B']'')"
    by (simp add: cell_at_def movies_table_def series_def)
  have second: "cell_at movies_table ''castList'' 1 = Some (Str ''[]'')"
    by (simp add: cell_at_def movies_table_def series_def)
  have ok: "\<not> isl (load_data_movies reject_rest movies_csv)"
    by (simp add: movies_eval movies_csv_def movies_table_def)
  then have loaded: "load_data_movies reject_rest movies_csv = Inr ?out"
    by (cases "load_data_movies reject_rest movies_csv") simp_all
  have col: "''castList'' = ''castList'' \<or> ''castList'' = ''directorList'' \<or>
      ''castList'' = ''genreList''"
    by simp
  have rows: "0 \<in> set (index movies_table)" "1 \<in> set (index movies_table)"
    by (simp_all add: movies_table_def)
  from movies_list_decoding [OF loaded parsed col idx rows(1)] first
  have out0: "cell_at ?out ''castList'' 0 = Some (List [Str ''A'', Str ''B''])"
    by auto
  from movies_list_decoding [OF loaded parsed col idx rows(2)] first second
  have out1: "cell_at ?out ''castList'' 1 = Some (List [])"
    by auto
  show ?thesis
    using parsed idx first second ok out0 out1 by simp
qed

text \<open>
  Claim C6 as stated fails on \<open>movies_undecoded_table\<close>. Its cast column starts with a
  missing value, so the text of the second row is still a text after loading; and the
  first genre is the text of one quoted string, which is decoded to a string, not to a
  sequence.
\<close>

theorem movies_text_not_decoded:
  "\<not> isl (load_data_movies reject_rest movies_undecoded_csv) \<and>
   cell_at (projr (load_data_movies reject_rest movies_undecoded_csv)) ''castList'' 1 =
     Some (Str ''['A', 'B']'') \<and>
   cell_at movies_undecoded_table ''genreList'' 0 = Some (Str ''\"Drama\"'') \<and>
   cell_at (projr (load_data_movies reject_rest movies_undecoded_csv)) ''genreList'' 0 =
     Some (Str ''Drama'')"
  by (simp add: movies_eval movies_undecoded_csv_def movies_undecoded_table_def)

subsection \<open>The two formats\<close>















end
